theory Spec2Isabelle
  imports Main "HOL-Library.Word"
begin

section \<open>Values of the Python program\<close>

text \<open>
  The program is \<^verbatim>\<open>mock-endpoints.py\<close>: a request handler class
  \<^verbatim>\<open>MockEndpointHandler\<close> with the methods \<^verbatim>\<open>__init__\<close>, \<^verbatim>\<open>do_POST\<close>,
  \<^verbatim>\<open>do_GET\<close> and \<^verbatim>\<open>log_message\<close>, the function \<^verbatim>\<open>run_mock_server\<close> and the
  main block that starts two listeners.

  Bytes are 8-bit words. A Python \<^verbatim>\<open>str\<close> is the list of its code points (32-bit words,
  as CPython's \<^verbatim>\<open>Py_UCS4\<close>), so that a decoded document may hold any character, lone
  surrogates included. Text that is ASCII by
  construction (the labels the main block gives to the listeners, and the messages and codec
  names in the exceptions of the decoders, which CPython takes from fixed texts) is a list
  of 7-bit words. A Python float is its
  IEEE 754 binary64 bit pattern; the program never computes with one. A decoded JSON
  document is a value of \<open>json\<close>; a Python dict made by the decoder is an association
  list with distinct keys.
\<close>

type_synonym byte = "8 word"
type_synonym pyfloat = "64 word"
type_synonym pystr = "32 word list"
type_synonym ascii = "7 word list"

definition ascii_of :: "string \<Rightarrow> ascii" where
  "ascii_of s = map of_char s"

definition asc :: "ascii \<Rightarrow> pystr" where
  "asc s = map ucast s"

definition lit :: "string \<Rightarrow> pystr" where
  \<comment> \<open>a string literal of the program\<close>
  "lit s = asc (ascii_of s)"

datatype json =
    JNull
  | JBool bool
  | JInt int
  | JFloat pyfloat
  | JStr pystr
  | JList "json list"
  | JDict "(pystr \<times> json) list"

subsection \<open>Exceptions\<close>

text \<open>
  The exceptions that the calls of \<^verbatim>\<open>do_POST\<close> raise, with the attributes Python stores
  in them: \<^verbatim>\<open>UnicodeDecodeError(encoding, object, start, end, reason)\<close> from
  \<^verbatim>\<open>bytes.decode\<close>, \<^verbatim>\<open>UnicodeEncodeError(encoding, object, start, end, reason)\<close> from
  \<^verbatim>\<open>print\<close>, \<^verbatim>\<open>JSONDecodeError\<close> with \<^verbatim>\<open>msg\<close>, \<^verbatim>\<open>lineno\<close>, \<^verbatim>\<open>colno\<close>, \<^verbatim>\<open>pos\<close> from
  \<^verbatim>\<open>json.loads\<close>, \<^verbatim>\<open>AttributeError\<close> (type name, attribute name) from an attribute
  lookup, \<^verbatim>\<open>ValueError(message)\<close> from \<^verbatim>\<open>int\<close>, \<^verbatim>\<open>urlparse\<close> and \<^verbatim>\<open>rfile.read\<close>, and
  \<^verbatim>\<open>OverflowError(message)\<close> and \<^verbatim>\<open>MemoryError()\<close> from \<^verbatim>\<open>rfile.read\<close>.
\<close>

datatype unicode_error =
  Unicode_error (u_encoding: ascii) (u_object: "byte list") (u_start: nat) (u_end: nat) (u_reason: ascii)

datatype encode_error =
  Encode_error (e_encoding: ascii) (e_object: pystr) (e_start: nat) (e_end: nat) (e_reason: ascii)

datatype json_error =
  Json_error (j_msg: ascii) (j_lineno: nat) (j_colno: nat) (j_pos: nat)

datatype exn =
    UnicodeDecodeError unicode_error
  | UnicodeEncodeError encode_error
  | JSONDecodeError json_error
  | AttributeError ascii ascii
  | ValueError pystr
  | OverflowError pystr
  | MemoryError

subsection \<open>Formatting\<close>

definition digit_char :: "nat \<Rightarrow> char" where
  "digit_char d = char_of (48 + d)"

fun show_nat :: "nat \<Rightarrow> string" where
  "show_nat n = (if n < 10 then [digit_char n] else show_nat (n div 10) @ [digit_char (n mod 10)])"

declare show_nat.simps [simp del]

definition show_int :: "int \<Rightarrow> string" where
  "show_int i = (if i < 0 then CHR ''-'' # show_nat (nat (- i)) else show_nat (nat i))"

definition hex_char :: "int \<Rightarrow> char" where
  "hex_char d = (if d < 10 then char_of (48 + d) else char_of (87 + d))"

fun hex_pad :: "nat \<Rightarrow> int \<Rightarrow> string" where
  \<comment> \<open>the C format \<^verbatim>\<open>%0wx\<close> for a value below \<open>16 ^ w\<close>\<close>
  "hex_pad 0 v = []"
| "hex_pad (Suc w) v = hex_pad w (v div 16) @ [hex_char (v mod 16)]"

definition char_escape :: "32 word \<Rightarrow> string" where
  \<comment> \<open>how \<^verbatim>\<open>UnicodeEncodeError\<close> shows the character it could not encode\<close>
  "char_escape c =
     (if c \<le> 0xff then [CHR 0x5C, CHR ''x''] @ hex_pad 2 (uint c)
      else if c \<le> 0xffff then [CHR 0x5C, CHR ''u''] @ hex_pad 4 (uint c)
      else [CHR 0x5C, CHR ''U''] @ hex_pad 8 (uint c))"

fun str_exn :: "exn \<Rightarrow> pystr" where
  \<comment> \<open>\<^verbatim>\<open>str(e)\<close>\<close>
  "str_exn (UnicodeDecodeError u) =
     (if u_start u < length (u_object u) \<and> u_end u = u_start u + 1
      then lit [CHR 0x27] @ asc (u_encoding u) @ lit [CHR 0x27] @
           lit '' codec can't decode byte 0x'' @
           lit (hex_pad 2 (uint (u_object u ! u_start u))) @ lit '' in position '' @
           lit (show_nat (u_start u)) @ lit '': '' @ asc (u_reason u)
      else lit [CHR 0x27] @ asc (u_encoding u) @ lit [CHR 0x27] @
           lit '' codec can't decode bytes in position '' @
           lit (show_nat (u_start u)) @ lit ''-'' @ lit (show_int (int (u_end u) - 1)) @
           lit '': '' @ asc (u_reason u))"
| "str_exn (UnicodeEncodeError e) =
     (if e_start e < length (e_object e) \<and> e_end e = e_start e + 1
      then lit [CHR 0x27] @ asc (e_encoding e) @ lit [CHR 0x27] @
           lit '' codec can't encode character '' @
           lit [CHR 0x27] @ lit (char_escape (e_object e ! e_start e)) @ lit [CHR 0x27] @
           lit '' in position '' @ lit (show_nat (e_start e)) @ lit '': '' @ asc (e_reason e)
      else lit [CHR 0x27] @ asc (e_encoding e) @ lit [CHR 0x27] @
           lit '' codec can't encode characters in position '' @
           lit (show_nat (e_start e)) @ lit ''-'' @ lit (show_int (int (e_end e) - 1)) @
           lit '': '' @ asc (e_reason e))"
| "str_exn (JSONDecodeError j) =
     asc (j_msg j) @ lit '': line '' @ lit (show_nat (j_lineno j)) @ lit '' column '' @
     lit (show_nat (j_colno j)) @ lit '' (char '' @ lit (show_nat (j_pos j)) @ lit '')''"
| "str_exn (AttributeError tname attr) =
     lit [CHR 0x27] @ asc tname @ lit [CHR 0x27] @ lit '' object has no attribute '' @
     lit [CHR 0x27] @ asc attr @ lit [CHR 0x27]"
| "str_exn (ValueError m) = m"
| "str_exn (OverflowError m) = m"
| "str_exn MemoryError = []"

subsection \<open>Library functions the handler calls\<close>

text \<open>
  What the handler needs of the standard library and of the machine is a parameter of the
  model:
  \<^item> \<open>urlparse\<close>: \<^verbatim>\<open>urllib.parse.urlparse(path)\<close>; its result is not used by the handler,
    so only whether it raises is kept (\<open>None\<close>: it returns);
  \<^item> \<open>int_of_str\<close>: \<^verbatim>\<open>int(s)\<close> on a string, \<open>Inl\<close> the \<^verbatim>\<open>ValueError\<close> it raises;
  \<^item> \<open>can_allocate\<close>: whether a bytes object of that size can be allocated;
  \<^item> \<open>utf8_decode\<close>: \<^verbatim>\<open>body.decode('utf-8')\<close> on bytes that are not all ASCII;
  \<^item> \<open>scan_value\<close>: the JSON scanner on a text and an index inside it: the value that
    starts there and the index after it, or the message and position of the
    \<^verbatim>\<open>JSONDecodeError\<close>;
  \<^item> \<open>py_repr\<close>: \<^verbatim>\<open>repr(v)\<close> of a decoded value, used where an f-string formats a float,
    a list or a dict;
  \<^item> the console (\<^verbatim>\<open>sys.stdout\<close>): the name of its codec, the characters beyond ASCII that
    it encodes, and the reason it gives for one that it does not. Every console encodes
    ASCII.
\<close>

record pylib =
  urlparse :: "string \<Rightarrow> exn option"
  int_of_str :: "string \<Rightarrow> exn + int"
  can_allocate :: "int \<Rightarrow> bool"
  utf8_decode :: "byte list \<Rightarrow> unicode_error + pystr"
  scan_value :: "pystr \<Rightarrow> nat \<Rightarrow> (ascii \<times> nat) + (json \<times> nat)"
  py_repr :: "json \<Rightarrow> pystr"
  console_codec :: ascii
  console_encodes :: "32 word \<Rightarrow> bool"
  console_reason :: "32 word \<Rightarrow> ascii"

subsubsection \<open>\<^verbatim>\<open>bytes.decode\<close> and \<^verbatim>\<open>json.loads\<close>\<close>

definition bytes_decode :: "pylib \<Rightarrow> byte list \<Rightarrow> unicode_error + pystr" where
  \<comment> \<open>\<^verbatim>\<open>body.decode('utf-8')\<close>: ASCII bytes, and so the empty input, decode to themselves\<close>
  "bytes_decode lib b =
     (if list_all (\<lambda>x. x < 128) b then Inr (map ucast b) else utf8_decode lib b)"

definition JSONDecodeError_init :: "ascii \<Rightarrow> pystr \<Rightarrow> nat \<Rightarrow> json_error" where
  \<comment> \<open>\<^verbatim>\<open>JSONDecodeError(msg, doc, pos)\<close>: \<^verbatim>\<open>lineno = doc.count('\n', 0, pos) + 1\<close> and
      \<^verbatim>\<open>colno = pos - doc.rfind('\n', 0, pos)\<close>, where \<^verbatim>\<open>rfind\<close> is \<open>-1\<close> without a newline\<close>
  "JSONDecodeError_init m doc p =
     (let before = take p doc;
          lineno = length (filter (\<lambda>c. c = 10) before) + 1;
          colno = (if 10 \<in> set before
                   then p - (length before - 1 - length (takeWhile (\<lambda>c. c \<noteq> 10) (rev before)))
                   else p + 1)
      in Json_error m lineno colno p)"

definition whitespace_end :: "pystr \<Rightarrow> nat \<Rightarrow> nat" where
  \<comment> \<open>\<^verbatim>\<open>WHITESPACE.match(s, idx).end()\<close> for the pattern \<^verbatim>\<open>[ \t\n\r]*\<close>\<close>
  "whitespace_end s idx =
     min idx (length s) + length (takeWhile (\<lambda>c. c \<in> {32, 9, 10, 13}) (drop idx s))"

definition scan_once :: "pylib \<Rightarrow> pystr \<Rightarrow> nat \<Rightarrow> (ascii \<times> nat) + (json \<times> nat)" where
  \<comment> \<open>the scanner: at the end of the text there is no value\<close>
  "scan_once lib s idx =
     (if length s \<le> idx then Inl (ascii_of ''Expecting value'', idx) else scan_value lib s idx)"

definition json_loads :: "pylib \<Rightarrow> pystr \<Rightarrow> json_error + json" where
  \<comment> \<open>\<^verbatim>\<open>json.loads(s)\<close>: no byte order mark, then one value between whitespace\<close>
  "json_loads lib s =
     (if s \<noteq> [] \<and> hd s = 0xFEFF
      then Inl (JSONDecodeError_init (ascii_of ''Unexpected UTF-8 BOM (decode using utf-8-sig)'') s 0)
      else
        (case scan_once lib s (whitespace_end s 0) of
           Inl (m, p) \<Rightarrow> Inl (JSONDecodeError_init m s p)
         | Inr (obj, e) \<Rightarrow>
             (let e' = whitespace_end s e
              in if e' \<noteq> length s
                 then Inl (JSONDecodeError_init (ascii_of ''Extra data'') s e')
                 else Inr obj)))"

subsubsection \<open>\<^verbatim>\<open>print\<close>\<close>

text \<open>
  An event is what a handler does to the outside: a line printed on the console, a sleep
  (milliseconds), and the calls that write the response. \<open>Send_response code\<close> is the status
  line that the framework queues together with its own \<^verbatim>\<open>Server\<close> and \<^verbatim>\<open>Date\<close> headers, and
  \<open>Wfile_write_json v\<close> is \<^verbatim>\<open>self.wfile.write(json.dumps(v).encode('utf-8'))\<close>.
\<close>

datatype event =
    Print pystr
  | Sleep_ms nat
  | Send_response nat
  | Send_header string string
  | End_headers
  | Wfile_write_json json

text \<open>
  \<^verbatim>\<open>print\<close> raises \<^verbatim>\<open>UnicodeEncodeError\<close> when the console cannot encode a character of the
  line: the error names the first run of such characters. Otherwise it is taken to return;
  a console that is closed is outside the model, as are \<^verbatim>\<open>time.sleep\<close> and the writes of the
  response on a connection that breaks.
\<close>

definition encodable :: "pylib \<Rightarrow> 32 word \<Rightarrow> bool" where
  "encodable lib c = (c < 128 \<or> console_encodes lib c)"

definition print_line :: "pylib \<Rightarrow> pystr \<Rightarrow> exn + event list" where
  "print_line lib line =
     (if list_all (encodable lib) line then Inr [Print line]
      else
        (let s = length (takeWhile (encodable lib) line);
             e = s + length (takeWhile (\<lambda>c. \<not> encodable lib c) (drop s line))
         in Inl (UnicodeEncodeError
                   (Encode_error (console_codec lib) line s e (console_reason lib (line ! s))))))"

subsubsection \<open>f-strings and \<^verbatim>\<open>dict.get\<close>\<close>

definition format_value :: "pylib \<Rightarrow> json \<Rightarrow> pystr" where
  \<comment> \<open>a replacement field \<^verbatim>\<open>{v}\<close> of an f-string: \<^verbatim>\<open>format(v, '')\<close>\<close>
  "format_value lib v =
     (case v of
        JNull \<Rightarrow> lit ''None''
      | JBool b \<Rightarrow> (if b then lit ''True'' else lit ''False'')
      | JInt i \<Rightarrow> lit (show_int i)
      | JStr s \<Rightarrow> s
      | _ \<Rightarrow> py_repr lib v)"

definition type_name :: "json \<Rightarrow> ascii" where
  \<comment> \<open>\<^verbatim>\<open>type(v).__name__\<close>\<close>
  "type_name v =
     (case v of
        JNull \<Rightarrow> ascii_of ''NoneType''
      | JBool _ \<Rightarrow> ascii_of ''bool''
      | JInt _ \<Rightarrow> ascii_of ''int''
      | JFloat _ \<Rightarrow> ascii_of ''float''
      | JStr _ \<Rightarrow> ascii_of ''str''
      | JList _ \<Rightarrow> ascii_of ''list''
      | JDict _ \<Rightarrow> ascii_of ''dict'')"

definition data_get :: "json \<Rightarrow> pystr \<Rightarrow> json \<Rightarrow> exn + json" where
  \<comment> \<open>\<^verbatim>\<open>data.get(key, default)\<close>: only a dict has the attribute \<^verbatim>\<open>get\<close>\<close>
  "data_get data key dflt =
     (case data of
        JDict d \<Rightarrow> Inr (case map_of d key of Some v \<Rightarrow> v | None \<Rightarrow> dflt)
      | _ \<Rightarrow> Inl (AttributeError (type_name data) (ascii_of ''get'')))"

section \<open>Server, handler and request\<close>

record server =
  server_address :: "string \<times> nat"
  server_name :: ascii

record handler =
  request_count :: int
  server :: server

datatype command = GET | POST

text \<open>
  What the framework has parsed when it calls \<^verbatim>\<open>do_GET\<close> or \<^verbatim>\<open>do_POST\<close>: the request
  path, the header lines in order (both decoded as Latin-1, one character per byte), and
  \<open>rfile\<close>, the bytes the connection delivers after the headers before the end of the
  stream. \<open>clock\<close> is what \<^verbatim>\<open>time.time()\<close> returns while the request is handled.
\<close>

record request =
  command :: command
  path :: string
  headers :: "(string \<times> string) list"
  rfile :: "byte list"
  clock :: pyfloat

subsection \<open>Header lookup and body read\<close>

definition lower_char :: "char \<Rightarrow> char" where
  \<comment> \<open>\<^verbatim>\<open>str.lower\<close> on one character of a header name (Latin-1)\<close>
  "lower_char c =
     (let n = (of_char c :: nat)
      in if (65 \<le> n \<and> n \<le> 90) \<or> (192 \<le> n \<and> n \<le> 222 \<and> n \<noteq> 215)
         then char_of (n + 32) else c)"

definition lower :: "string \<Rightarrow> string" where
  "lower s = map lower_char s"

fun headers_get :: "(string \<times> string) list \<Rightarrow> string \<Rightarrow> string option" where
  \<comment> \<open>\<^verbatim>\<open>self.headers.get(name)\<close>: the first header whose name matches, ignoring case\<close>
  "headers_get [] name = None"
| "headers_get ((k, v) # hs) name =
     (if lower k = lower name then Some v else headers_get hs name)"

definition content_length :: "pylib \<Rightarrow> request \<Rightarrow> exn + int" where
  \<comment> \<open>\<^verbatim>\<open>int(self.headers.get('Content-Length', 0))\<close>\<close>
  "content_length lib req =
     (case headers_get (headers req) ''Content-Length'' of
        None \<Rightarrow> Inr 0
      | Some v \<Rightarrow> int_of_str lib v)"

definition rfile_read :: "pylib \<Rightarrow> byte list \<Rightarrow> int \<Rightarrow> exn + byte list" where
  \<comment> \<open>\<^verbatim>\<open>self.rfile.read(n)\<close> on the buffered reader of the connection (64-bit build): the
      size must fit the C type \<^verbatim>\<open>Py_ssize_t\<close>; below \<open>-1\<close> it raises; \<open>-1\<close> reads to the end
      of the stream; otherwise the reader allocates \<open>n\<close> bytes and returns up to \<open>n\<close>
      bytes, fewer at the end of the stream\<close>
  "rfile_read lib stream n =
     (if n < - (2 ^ 63) \<or> 2 ^ 63 \<le> n
      then Inl (OverflowError (lit ''cannot fit 'int' into an index-sized integer''))
      else if n < - 1 then Inl (ValueError (lit ''read length must be non-negative or -1''))
      else if n = - 1 then Inr stream
      else if n = 0 \<or> can_allocate lib n then Inr (take (nat n) stream)
      else Inl MemoryError)"

definition read_body :: "pylib \<Rightarrow> request \<Rightarrow> exn + byte list" where
  \<comment> \<open>lines 22 to 26 of \<^verbatim>\<open>do_POST\<close>, before the \<^verbatim>\<open>try\<close>\<close>
  "read_body lib req =
     (case urlparse lib (path req) of
        Some e \<Rightarrow> Inl e
      | None \<Rightarrow>
          (case content_length lib req of
             Inl e \<Rightarrow> Inl e
           | Inr n \<Rightarrow> rfile_read lib (rfile req) n))"

section \<open>The handler class\<close>

subsection \<open>Framework calls\<close>

definition log_message :: "handler \<Rightarrow> string \<Rightarrow> string list \<Rightarrow> event list" where
  \<comment> \<open>the override of the class: \<^verbatim>\<open>pass\<close>\<close>
  "log_message h format args = []"

definition log_request :: "handler \<Rightarrow> nat \<Rightarrow> event list" where
  \<comment> \<open>the framework's access log line of a response, sent through \<^verbatim>\<open>self.log_message\<close>\<close>
  "log_request h code = log_message h ''\"%s\" %s %s'' [show_nat code, ''-'']"

definition send_response :: "handler \<Rightarrow> nat \<Rightarrow> event list" where
  \<comment> \<open>\<^verbatim>\<open>self.send_response(code)\<close>: the framework logs the request, then queues the status line\<close>
  "send_response h code = log_request h code @ [Send_response code]"

definition send_header :: "handler \<Rightarrow> string \<Rightarrow> string \<Rightarrow> event list" where
  "send_header h keyword val = [Send_header keyword val]"

definition end_headers :: "handler \<Rightarrow> event list" where
  "end_headers h = [End_headers]"

subsection \<open>\<^verbatim>\<open>__init__\<close>\<close>

definition init_handler :: "server \<Rightarrow> handler" where
  \<comment> \<open>\<^verbatim>\<open>self.request_count = 0\<close>, for the server that made the handler\<close>
  "init_handler srv = \<lparr>request_count = 0, server = srv\<rparr>"

subsection \<open>\<^verbatim>\<open>do_POST\<close>\<close>

definition received_line :: "pylib \<Rightarrow> handler \<Rightarrow> json \<Rightarrow> pystr" where
  "received_line lib h shown =
     lit ''['' @ asc (server_name (server h)) @ lit ''] Received request #'' @
     lit (show_int (request_count h)) @ lit '': '' @ format_value lib shown"

definition success_response :: "handler \<Rightarrow> json \<Rightarrow> pyfloat \<Rightarrow> json" where
  "success_response h idv now =
     JDict [(lit ''success'', JBool True),
            (lit ''message'', JStr (lit ''Data saved successfully to '' @ asc (server_name (server h)))),
            (lit ''id'', idv),
            (lit ''timestamp'', JFloat now)]"

definition error_line :: "handler \<Rightarrow> exn \<Rightarrow> pystr" where
  "error_line h e =
     lit ''['' @ asc (server_name (server h)) @ lit ''] Error processing request: '' @ str_exn e"

definition error_response :: "exn \<Rightarrow> json" where
  "error_response e = JDict [(lit ''error'', JStr (str_exn e))]"

definition decode_body :: "pylib \<Rightarrow> byte list \<Rightarrow> exn + json" where
  \<comment> \<open>\<^verbatim>\<open>json.loads(body.decode('utf-8'))\<close>\<close>
  "decode_body lib body =
     (case bytes_decode lib body of
        Inl u \<Rightarrow> Inl (UnicodeDecodeError u)
      | Inr text \<Rightarrow>
          (case json_loads lib text of
             Inl j \<Rightarrow> Inl (JSONDecodeError j)
           | Inr data \<Rightarrow> Inr data))"

definition post_try :: "pylib \<Rightarrow> handler \<Rightarrow> request \<Rightarrow> byte list \<Rightarrow> event list \<times> exn option" where
  \<comment> \<open>the body of the \<^verbatim>\<open>try\<close>: what it has done when it ends, and the exception that
      ended it, if one did\<close>
  "post_try lib h req body =
     (case decode_body lib body of
        Inl e \<Rightarrow> ([], Some e)
      | Inr data \<Rightarrow>
     (case data_get data (lit ''id'') (JStr (lit ''unknown'')) of
        Inl e \<Rightarrow> ([], Some e)
      | Inr shown \<Rightarrow>
     (case print_line lib (received_line lib h shown) of
        Inl e \<Rightarrow> ([], Some e)
      | Inr printed \<Rightarrow>
     (case data_get data (lit ''id'') JNull of
        Inl e \<Rightarrow> (printed @ [Sleep_ms 100], Some e)
      | Inr idv \<Rightarrow>
          (printed @ [Sleep_ms 100] @
           send_response h 200 @
           send_header h ''Content-Type'' ''application/json'' @
           end_headers h @
           [Wfile_write_json (success_response h idv (clock req))], None)))))"

definition post_except :: "pylib \<Rightarrow> handler \<Rightarrow> exn \<Rightarrow> exn option \<times> event list" where
  \<comment> \<open>the \<^verbatim>\<open>except Exception as e\<close> block: an exception of its \<^verbatim>\<open>print\<close> leaves the method\<close>
  "post_except lib h e =
     (case print_line lib (error_line h e) of
        Inl e' \<Rightarrow> (Some e', [])
      | Inr printed \<Rightarrow>
          (None,
           printed @
           send_response h 500 @
           send_header h ''Content-Type'' ''application/json'' @
           end_headers h @
           [Wfile_write_json (error_response e)]))"

definition post_handle :: "pylib \<Rightarrow> handler \<Rightarrow> request \<Rightarrow> byte list \<Rightarrow> exn option \<times> event list" where
  \<comment> \<open>the \<^verbatim>\<open>try\<close> statement on the body read: an exception of the \<^verbatim>\<open>try\<close> block runs the
      \<^verbatim>\<open>except\<close> block after what the \<^verbatim>\<open>try\<close> block had done\<close>
  "post_handle lib h req body =
     (case post_try lib h req body of
        (evs, None) \<Rightarrow> (None, evs)
      | (evs, Some e) \<Rightarrow> (case post_except lib h e of (r, evs') \<Rightarrow> (r, evs @ evs')))"

definition do_POST :: "pylib \<Rightarrow> handler \<Rightarrow> request \<Rightarrow> exn option \<times> handler \<times> event list" where
  \<comment> \<open>the exception that leaves the method (\<open>None\<close>: it returns), the handler afterwards,
      and what the method did\<close>
  "do_POST lib h req =
     (let h1 = h\<lparr>request_count := request_count h + 1\<rparr>
      in case read_body lib req of
           Inl e \<Rightarrow> (Some e, h1, [])
         | Inr body \<Rightarrow> (case post_handle lib h1 req body of (r, evs) \<Rightarrow> (r, h1, evs)))"

subsection \<open>\<^verbatim>\<open>do_GET\<close>\<close>

definition health_response :: "handler \<Rightarrow> pyfloat \<Rightarrow> json" where
  "health_response h now =
     JDict [(lit ''status'', JStr (lit ''healthy'')),
            (lit ''service'', JStr (asc (server_name (server h)))),
            (lit ''timestamp'', JFloat now)]"

definition do_GET :: "handler \<Rightarrow> request \<Rightarrow> exn option \<times> handler \<times> event list" where
  "do_GET h req =
     (None, h,
      send_response h 200 @
      send_header h ''Content-Type'' ''application/json'' @
      end_headers h @
      [Wfile_write_json (health_response h (clock req))])"

section \<open>Listeners\<close>

text \<open>
  The framework makes one handler per connection; the handler's constructor handles the
  requests of the connection one after the other, calling \<^verbatim>\<open>do_GET\<close> or \<^verbatim>\<open>do_POST\<close>, and an
  exception that leaves a method ends the connection. The listener then takes the next
  connection. Requests with another method are answered by the framework and are not
  modelled.
\<close>

definition dispatch :: "pylib \<Rightarrow> handler \<Rightarrow> request \<Rightarrow> exn option \<times> handler \<times> event list" where
  "dispatch lib h req = (case command req of GET \<Rightarrow> do_GET h req | POST \<Rightarrow> do_POST lib h req)"

fun handle :: "pylib \<Rightarrow> handler \<Rightarrow> request list \<Rightarrow> exn option \<times> handler \<times> event list" where
  "handle lib h [] = (None, h, [])"
| "handle lib h (req # reqs) =
     (case dispatch lib h req of
        (Some e, h1, evs) \<Rightarrow> (Some e, h1, evs)
      | (None, h1, evs) \<Rightarrow>
          (case handle lib h1 reqs of (r, h2, rest) \<Rightarrow> (r, h2, evs @ rest)))"

definition MockEndpointHandler :: "pylib \<Rightarrow> server \<Rightarrow> request list \<Rightarrow> exn option \<times> handler \<times> event list" where
  \<comment> \<open>constructing the handler for a connection: \<^verbatim>\<open>__init__\<close> sets the counter, then the
      base class handles the connection\<close>
  "MockEndpointHandler lib srv reqs = handle lib (init_handler srv) reqs"

fun serve_forever :: "pylib \<Rightarrow> server \<Rightarrow> request list list \<Rightarrow> server \<times> event list" where
  \<comment> \<open>the listener over the connections it has taken so far\<close>
  "serve_forever lib srv [] = (srv, [])"
| "serve_forever lib srv (conn # conns) =
     (case MockEndpointHandler lib srv conn of
        (r, h, evs) \<Rightarrow>
          (case serve_forever lib (server h) conns of (srv', rest) \<Rightarrow> (srv', evs @ rest)))"

definition run_mock_server :: "pylib \<Rightarrow> nat \<Rightarrow> ascii \<Rightarrow> request list list \<Rightarrow> server \<times> event list" where
  \<comment> \<open>\<^verbatim>\<open>run_mock_server(port, name)\<close>: bind, set \<^verbatim>\<open>server.server_name = name\<close>, serve\<close>
  "run_mock_server lib port name conns =
     serve_forever lib \<lparr>server_address = (''0.0.0.0'', port), server_name = name\<rparr> conns"

definition aws_listener :: "pylib \<Rightarrow> request list list \<Rightarrow> server \<times> event list" where
  \<comment> \<open>the main block: \<^verbatim>\<open>args=(8081, "AWS-API")\<close>\<close>
  "aws_listener lib conns = run_mock_server lib 8081 (ascii_of ''AWS-API'') conns"

definition azure_listener :: "pylib \<Rightarrow> request list list \<Rightarrow> server \<times> event list" where
  \<comment> \<open>the main block: \<^verbatim>\<open>args=(8082, "Azure-API")\<close>\<close>
  "azure_listener lib conns = run_mock_server lib 8082 (ascii_of ''Azure-API'') conns"

section \<open>Response documents\<close>

text \<open>
  The documents a listener with the label \<open>name\<close> may write: a success record, whose
  \<open>message\<close> ends with the label; a health record, whose \<open>service\<close> is the label; or an
  error record, which has the single field \<open>error\<close>.
\<close>

definition labelled_response :: "ascii \<Rightarrow> json \<Rightarrow> bool" where
  "labelled_response name v =
     (case v of
        JDict d \<Rightarrow>
          (map fst d = [lit ''success'', lit ''message'', lit ''id'', lit ''timestamp''] \<and>
           map_of d (lit ''message'') = Some (JStr (lit ''Data saved successfully to '' @ asc name))) \<or>
          (map fst d = [lit ''status'', lit ''service'', lit ''timestamp''] \<and>
           map_of d (lit ''service'') = Some (JStr (asc name))) \<or>
          map fst d = [lit ''error'']
      | _ \<Rightarrow> False)"

section \<open>Sample inputs\<close>

text \<open>
  A library for evaluating the handler on concrete requests: a console with the codec
  UTF-8, which encodes every character but the surrogates, and a machine that allocates
  less than \<open>2 ^ 32\<close> bytes. On the inputs used in this theory its functions return what
  the Python functions return: \<^verbatim>\<open>int\<close> on "3", "8", "13", "16", "20", "-1",
  "4611686018427387904", "9223372036854775808" and "abc"; \<^verbatim>\<open>urlparse\<close> on "/save",
  "/health" and "http://["; the scanner at the start of the four documents listed and of
  "not-json". On other inputs they are not meant to agree with Python.
\<close>

definition bytes_of :: "string \<Rightarrow> byte list" where
  "bytes_of s = map of_char s"

definition first_byte_error :: "byte list \<Rightarrow> unicode_error + pystr" where
  "first_byte_error b =
     (let i = length (takeWhile (\<lambda>x. x < 128) b)
      in Inl (Unicode_error (ascii_of ''utf-8'') b i (i + 1) (ascii_of ''invalid start byte'')))"

definition all_digits :: "string \<Rightarrow> bool" where
  "all_digits s = (s \<noteq> [] \<and> list_all (\<lambda>c. 48 \<le> (of_char c :: nat) \<and> (of_char c :: nat) \<le> 57) s)"

definition digits_value :: "string \<Rightarrow> int" where
  "digits_value s = foldl (\<lambda>a c. 10 * a + (of_char c - 48)) 0 s"

definition digits_int :: "string \<Rightarrow> exn + int" where
  "digits_int s =
     (if all_digits s then Inr (digits_value s)
      else if s \<noteq> [] \<and> hd s = CHR ''-'' \<and> all_digits (tl s) then Inr (- digits_value (tl s))
      else if s \<noteq> [] \<and> hd s = CHR ''+'' \<and> all_digits (tl s) then Inr (digits_value (tl s))
      else Inl (ValueError (lit ''invalid literal for int() with base 10: '' @ lit [CHR 0x27] @
                            map of_char s @ lit [CHR 0x27])))"

definition table_scan :: "pystr \<Rightarrow> nat \<Rightarrow> (ascii \<times> nat) + (json \<times> nat)" where
  "table_scan s idx =
     (if idx = 0 \<and> s = lit ''{\"id\": \"txn-42\"}''
      then Inr (JDict [(lit ''id'', JStr (lit ''txn-42''))], 16)
      else if idx = 0 \<and> s = lit ''{\"id\": \"'' @ lit [CHR 0x5C] @ lit ''ud800\"}''
      then Inr (JDict [(lit ''id'', JStr [0xD800])], 16)
      else if idx = 0 \<and> s = lit ''{\"name\": \"x\"}''
      then Inr (JDict [(lit ''name'', JStr (lit ''x''))], 13)
      else if idx = 0 \<and> s = lit ''[1]'' then Inr (JList [JInt 1], 3)
      else Inl (ascii_of ''Expecting value'', idx))"

definition table_lib :: pylib where
  "table_lib =
     \<lparr>urlparse = (\<lambda>p. if p = ''http://['' then Some (ValueError (lit ''Invalid IPv6 URL'')) else None),
      int_of_str = digits_int,
      can_allocate = (\<lambda>n. n < 2 ^ 32),
      utf8_decode = first_byte_error,
      scan_value = table_scan,
      py_repr = (\<lambda>v. if v = JList [JInt 1] then lit ''[1]'' else []),
      console_codec = ascii_of ''utf-8'',
      console_encodes = (\<lambda>c. c < 0x110000 \<and> \<not> (0xD800 \<le> c \<and> c \<le> 0xDFFF)),
      console_reason = (\<lambda>c. ascii_of ''surrogates not allowed'')\<rparr>"

definition post_request :: "(string \<times> string) list \<Rightarrow> string \<Rightarrow> request" where
  "post_request hs text =
     \<lparr>command = POST, path = ''/save'', headers = hs, rfile = bytes_of text, clock = 0x41DA6B1A4B400000\<rparr>"

definition aws_server :: server where
  "aws_server = \<lparr>server_address = (''0.0.0.0'', 8081), server_name = ascii_of ''AWS-API''\<rparr>"

definition azure_server :: server where
  "azure_server = \<lparr>server_address = (''0.0.0.0'', 8082), server_name = ascii_of ''Azure-API''\<rparr>"

definition txn_request :: request where
  "txn_request = post_request [(''Host'', ''localhost:8081''), (''content-length'', ''16'')] ''{\"id\": \"txn-42\"}''"

definition surrogate_body :: string where
  "surrogate_body = ''{\"id\": \"'' @ [CHR 0x5C] @ ''ud800\"}''"

definition surrogate_request :: request where
  "surrogate_request = post_request [(''Content-Length'', ''16'')] surrogate_body"

definition name_request :: request where
  "name_request = post_request [(''Content-Length'', ''13'')] ''{\"name\": \"x\"}''"

definition not_json_request :: request where
  "not_json_request = post_request [(''Content-Length'', ''8'')] ''not-json''"

definition list_request :: request where
  "list_request = post_request [(''Content-Length'', ''3'')] ''[1]''"

definition health_request :: request where
  "health_request =
     \<lparr>command = GET, path = ''/health'', headers = [(''Host'', ''localhost:8081'')], rfile = [],
      clock = 0x41DA6B1A4B400000\<rparr>"

definition bad_length_request :: request where
  "bad_length_request = post_request [(''Content-Length'', ''abc'')] ''{\"id\": \"txn-42\"}''"

definition bad_path_request :: request where
  "bad_path_request = (post_request [(''Content-Length'', ''16'')] ''{\"id\": \"txn-42\"}'')\<lparr>path := ''http://[''\<rparr>"

definition negative_length_request :: request where
  "negative_length_request = post_request [(''Content-Length'', ''-1'')] ''{\"id\": \"txn-42\"}''"

definition huge_length_request :: request where
  "huge_length_request = post_request [(''Content-Length'', ''9223372036854775808'')] ''{\"id\": \"txn-42\"}''"

definition large_length_request :: request where
  "large_length_request = post_request [(''Content-Length'', ''4611686018427387904'')] ''{\"id\": \"txn-42\"}''"

definition no_length_request :: request where
  "no_length_request = post_request [] ''{\"id\": \"txn-42\"}''"

definition long_request :: request where
  "long_request = post_request [(''Content-Length'', ''20'')] ''{\"id\": \"txn-42\"}''"

definition aws_connections :: "request list list" where
  "aws_connections = [[txn_request, health_request], [not_json_request]]"

definition azure_connections :: "request list list" where
  "azure_connections = [[health_request], [bad_length_request], [txn_request]]"

definition three_requests :: "request list" where
  "three_requests = [txn_request, health_request, name_request]"

section \<open>Properties of the handler\<close>

subsection \<open>Printing\<close>

lemma send_simps: "send_response h code = [Send_response code]"
  "send_header h k v = [Send_header k v]" "end_headers h = [End_headers]"
  by (simp_all add: send_response_def log_request_def log_message_def send_header_def end_headers_def)

lemma ucast_ascii: "(ucast (w :: 7 word) :: 32 word) < 128"
proof -
  have b: "unat w < 128"
    using unsigned_less [of w, where ?'a = nat] by simp
  have "unat (ucast w :: 32 word) = take_bit 32 (unat w)"
    by (simp add: unsigned_ucast_eq)
  also have "\<dots> = unat w"
    using b by (simp add: take_bit_nat_eq_self)
  finally show ?thesis
    using b by (simp add: word_less_nat_alt)
qed

lemma asc_encodable: "list_all (encodable lib) (asc s)"
  by (simp add: asc_def encodable_def list_all_iff ucast_ascii)

lemma lit_encodable: "list_all (encodable lib) (lit s)"
  by (simp add: lit_def asc_encodable)

lemma lit_nonempty: "s \<noteq> [] \<Longrightarrow> lit s \<noteq> []"
  by (simp add: lit_def asc_def ascii_of_def)

lemma print_line_encodable:
  "list_all (encodable lib) line \<Longrightarrow> print_line lib line = Inr [Print line]"
  by (simp add: print_line_def)

lemma str_exn_decode_encodable:
  "decode_body lib body = Inl e \<Longrightarrow> list_all (encodable lib) (str_exn e)"
  by (cases e)
     (auto simp: decode_body_def lit_encodable asc_encodable split: sum.splits if_splits)

lemma str_exn_attribute_encodable:
  "list_all (encodable lib) (str_exn (AttributeError t a))"
  by (simp add: lit_encodable asc_encodable)

lemma str_exn_encode_encodable:
  "list_all (encodable lib) (str_exn (UnicodeEncodeError x))"
  by (simp add: lit_encodable asc_encodable)

lemma decode_error_nonempty: "decode_body lib body = Inl e \<Longrightarrow> str_exn e \<noteq> []"
  by (cases e) (auto simp: decode_body_def lit_nonempty split: sum.splits if_splits)

lemma received_line_encodable:
  "list_all (encodable lib) (received_line lib h v) = list_all (encodable lib) (format_value lib v)"
  by (simp add: received_line_def lit_encodable asc_encodable)

lemma post_except_encodable:
  "list_all (encodable lib) (str_exn e) \<Longrightarrow>
   post_except lib h e =
     (None, [Print (error_line h e), Send_response 500,
             Send_header ''Content-Type'' ''application/json'', End_headers,
             Wfile_write_json (error_response e)])"
  by (simp add: post_except_def send_simps print_line_encodable error_line_def
      lit_encodable asc_encodable)

lemma post_try_dict:
  assumes "decode_body lib body = Inr (JDict d)"
    and "list_all (encodable lib)
           (format_value lib (case map_of d (lit ''id'') of Some v \<Rightarrow> v | None \<Rightarrow> JStr (lit ''unknown'')))"
  shows "post_try lib h req body =
    ([Print (received_line lib h (case map_of d (lit ''id'') of Some v \<Rightarrow> v | None \<Rightarrow> JStr (lit ''unknown''))),
      Sleep_ms 100, Send_response 200,
      Send_header ''Content-Type'' ''application/json'', End_headers,
      Wfile_write_json
        (success_response h (case map_of d (lit ''id'') of Some v \<Rightarrow> v | None \<Rightarrow> JNull) (clock req))],
     None)"
  using assms
  by (simp add: post_try_def data_get_def send_simps print_line_encodable received_line_encodable)

lemma decode_empty:
  "decode_body lib [] = Inl (JSONDecodeError (Json_error (ascii_of ''Expecting value'') 1 1 0))"
  by (simp add: decode_body_def bytes_decode_def json_loads_def scan_once_def whitespace_end_def
      JSONDecodeError_init_def)

subsection \<open>The success path\<close>

text \<open>
  Claim C1, amended. A POST whose body, as read by the handler, decodes to a JSON object with
  a field \<open>id = X\<close>, where the console can encode the text of \<open>X\<close> that the log line shows,
  is answered with status 200 and the document with \<open>success\<close> true, \<open>id\<close> equal to \<open>X\<close> (any
  JSON value) and \<open>message\<close> "Data saved successfully to" followed by the label of the
  listener. The body is the value of the variable \<^verbatim>\<open>body\<close>: the statements before the
  \<^verbatim>\<open>try\<close> have completed.
\<close>

theorem post_echoes_id:
  assumes "read_body lib req = Inr body"
    and "decode_body lib body = Inr (JDict d)"
    and "map_of d (lit ''id'') = Some X"
    and "list_all (encodable lib) (format_value lib X)"
  shows "do_POST lib h req =
    (None, h\<lparr>request_count := request_count h + 1\<rparr>,
     [Print (lit ''['' @ asc (server_name (server h)) @ lit ''] Received request #'' @
             lit (show_int (request_count h + 1)) @ lit '': '' @ format_value lib X),
      Sleep_ms 100,
      Send_response 200,
      Send_header ''Content-Type'' ''application/json'',
      End_headers,
      Wfile_write_json
        (JDict [(lit ''success'', JBool True),
                (lit ''message'', JStr (lit ''Data saved successfully to '' @ asc (server_name (server h)))),
                (lit ''id'', X),
                (lit ''timestamp'', JFloat (clock req))])])"
proof -
  from assms(3,4)
  have "list_all (encodable lib)
     (format_value lib (case map_of d (lit ''id'') of Some v \<Rightarrow> v | None \<Rightarrow> JStr (lit ''unknown'')))"
    by simp
  from post_try_dict [OF assms(2) this] assms(1,3) show ?thesis
    by (simp add: do_POST_def post_handle_def received_line_def success_response_def)
qed

theorem post_echoes_id_witness:
  "read_body table_lib txn_request = Inr (bytes_of ''{\"id\": \"txn-42\"}'') \<and>
   decode_body table_lib (bytes_of ''{\"id\": \"txn-42\"}'') =
     Inr (JDict [(lit ''id'', JStr (lit ''txn-42''))]) \<and>
   map_of [(lit ''id'', JStr (lit ''txn-42''))] (lit ''id'') = Some (JStr (lit ''txn-42'')) \<and>
   list_all (encodable table_lib) (format_value table_lib (JStr (lit ''txn-42''))) \<and>
   do_POST table_lib (init_handler aws_server) txn_request =
    (None, \<lparr>request_count = 1, server = aws_server\<rparr>,
     [Print (lit ''[AWS-API] Received request #1: txn-42''),
      Sleep_ms 100,
      Send_response 200,
      Send_header ''Content-Type'' ''application/json'',
      End_headers,
      Wfile_write_json
        (JDict [(lit ''success'', JBool True),
                (lit ''message'', JStr (lit ''Data saved successfully to AWS-API'')),
                (lit ''id'', JStr (lit ''txn-42'')),
                (lit ''timestamp'', JFloat 0x41DA6B1A4B400000)])])"
proof -
  have r: "read_body table_lib txn_request = Inr (bytes_of ''{\"id\": \"txn-42\"}'')"
    by code_simp
  have d: "decode_body table_lib (bytes_of ''{\"id\": \"txn-42\"}'') =
     Inr (JDict [(lit ''id'', JStr (lit ''txn-42''))])"
    by code_simp
  have m: "map_of [(lit ''id'', JStr (lit ''txn-42''))] (lit ''id'') = Some (JStr (lit ''txn-42''))"
    by simp
  have p: "list_all (encodable table_lib) (format_value table_lib (JStr (lit ''txn-42'')))"
    by code_simp
  have c: "do_POST table_lib (init_handler aws_server) txn_request =
    (None, \<lparr>request_count = 1, server = aws_server\<rparr>,
     [Print (lit ''[AWS-API] Received request #1: txn-42''),
      Sleep_ms 100,
      Send_response 200,
      Send_header ''Content-Type'' ''application/json'',
      End_headers,
      Wfile_write_json
        (JDict [(lit ''success'', JBool True),
                (lit ''message'', JStr (lit ''Data saved successfully to AWS-API'')),
                (lit ''id'', JStr (lit ''txn-42'')),
                (lit ''timestamp'', JFloat 0x41DA6B1A4B400000)])])"
    unfolding post_echoes_id [OF r d m p] by code_simp
  show ?thesis using r d m p c by simp
qed

text \<open>
  Claim C1 as stated (every body that is a JSON object with an \<open>id\<close> is answered with 200)
  fails on a console with the codec UTF-8 for the 16 bytes \<^verbatim>\<open>{"id": "\ud800"}\<close>: the body
  decodes to an object whose \<open>id\<close> is a lone surrogate, \<^verbatim>\<open>print\<close> raises
  \<^verbatim>\<open>UnicodeEncodeError\<close> inside the \<^verbatim>\<open>try\<close>, and the answer is the error record with
  status 500.
\<close>

theorem post_echoes_id_counterexample:
  "read_body table_lib surrogate_request = Inr (bytes_of surrogate_body) \<and>
   decode_body table_lib (bytes_of surrogate_body) = Inr (JDict [(lit ''id'', JStr [0xD800])]) \<and>
   map_of [(lit ''id'', JStr [0xD800])] (lit ''id'') = Some (JStr [0xD800]) \<and>
   do_POST table_lib (init_handler aws_server) surrogate_request =
    (None, \<lparr>request_count = 1, server = aws_server\<rparr>,
     [Print (lit ''[AWS-API] Error processing request: '' @
             lit ([CHR 0x27] @ ''utf-8'' @ [CHR 0x27] @ '' codec can't encode character '' @
                  [CHR 0x27, CHR 0x5C] @ ''ud800'' @ [CHR 0x27] @
                  '' in position 31: surrogates not allowed'')),
      Send_response 500,
      Send_header ''Content-Type'' ''application/json'',
      End_headers,
      Wfile_write_json
        (JDict [(lit ''error'',
                 JStr (lit ([CHR 0x27] @ ''utf-8'' @ [CHR 0x27] @ '' codec can't encode character '' @
                            [CHR 0x27, CHR 0x5C] @ ''ud800'' @ [CHR 0x27] @
                            '' in position 31: surrogates not allowed'')))])])"
  by (intro conjI; code_simp)

text \<open>
  Claim C5. A POST whose body decodes to a JSON object without the field \<open>id\<close> is answered
  with status 200, and the field \<open>id\<close> of the response is present with the value null.
\<close>

theorem post_missing_id:
  assumes "read_body lib req = Inr body"
    and "decode_body lib body = Inr (JDict d)"
    and "map_of d (lit ''id'') = None"
  shows "do_POST lib h req =
    (None, h\<lparr>request_count := request_count h + 1\<rparr>,
     [Print (lit ''['' @ asc (server_name (server h)) @ lit ''] Received request #'' @
             lit (show_int (request_count h + 1)) @ lit '': unknown''),
      Sleep_ms 100,
      Send_response 200,
      Send_header ''Content-Type'' ''application/json'',
      End_headers,
      Wfile_write_json
        (JDict [(lit ''success'', JBool True),
                (lit ''message'', JStr (lit ''Data saved successfully to '' @ asc (server_name (server h)))),
                (lit ''id'', JNull),
                (lit ''timestamp'', JFloat (clock req))])])"
proof -
  from assms(3)
  have "list_all (encodable lib)
     (format_value lib (case map_of d (lit ''id'') of Some v \<Rightarrow> v | None \<Rightarrow> JStr (lit ''unknown'')))"
    by (simp add: format_value_def lit_encodable)
  from post_try_dict [OF assms(2) this] assms(1,3) show ?thesis
    by (simp add: do_POST_def post_handle_def received_line_def success_response_def
        format_value_def lit_def asc_def ascii_of_def)
qed

theorem post_missing_id_witness:
  "read_body table_lib name_request = Inr (bytes_of ''{\"name\": \"x\"}'') \<and>
   decode_body table_lib (bytes_of ''{\"name\": \"x\"}'') = Inr (JDict [(lit ''name'', JStr (lit ''x''))]) \<and>
   map_of [(lit ''name'', JStr (lit ''x''))] (lit ''id'') = None \<and>
   do_POST table_lib (init_handler aws_server) name_request =
    (None, \<lparr>request_count = 1, server = aws_server\<rparr>,
     [Print (lit ''[AWS-API] Received request #1: unknown''),
      Sleep_ms 100,
      Send_response 200,
      Send_header ''Content-Type'' ''application/json'',
      End_headers,
      Wfile_write_json
        (JDict [(lit ''success'', JBool True),
                (lit ''message'', JStr (lit ''Data saved successfully to AWS-API'')),
                (lit ''id'', JNull),
                (lit ''timestamp'', JFloat 0x41DA6B1A4B400000)])])"
proof -
  have r: "read_body table_lib name_request = Inr (bytes_of ''{\"name\": \"x\"}'')"
    by code_simp
  have d: "decode_body table_lib (bytes_of ''{\"name\": \"x\"}'') = Inr (JDict [(lit ''name'', JStr (lit ''x''))])"
    by code_simp
  have m: "map_of [(lit ''name'', JStr (lit ''x''))] (lit ''id'') = None"
    by code_simp
  have c: "do_POST table_lib (init_handler aws_server) name_request =
    (None, \<lparr>request_count = 1, server = aws_server\<rparr>,
     [Print (lit ''[AWS-API] Received request #1: unknown''),
      Sleep_ms 100,
      Send_response 200,
      Send_header ''Content-Type'' ''application/json'',
      End_headers,
      Wfile_write_json
        (JDict [(lit ''success'', JBool True),
                (lit ''message'', JStr (lit ''Data saved successfully to AWS-API'')),
                (lit ''id'', JNull),
                (lit ''timestamp'', JFloat 0x41DA6B1A4B400000)])])"
    unfolding post_missing_id [OF r d m] by code_simp
  show ?thesis using r d m c by simp
qed

subsection \<open>The error path\<close>

text \<open>
  Claim C2. A POST whose body raises in the decode is answered with status 500 and the
  document with the single field \<open>error\<close>, the string of the exception, which is not empty.
  The \<^verbatim>\<open>except\<close> block is all that the method does: nothing of the success response is
  written before or after it.
\<close>

theorem post_decode_error:
  assumes "read_body lib req = Inr body"
    and "decode_body lib body = Inl e"
  shows "do_POST lib h req =
    (None, h\<lparr>request_count := request_count h + 1\<rparr>,
     [Print (lit ''['' @ asc (server_name (server h)) @ lit ''] Error processing request: '' @ str_exn e),
      Send_response 500,
      Send_header ''Content-Type'' ''application/json'',
      End_headers,
      Wfile_write_json (JDict [(lit ''error'', JStr (str_exn e))])]) \<and>
    str_exn e \<noteq> []"
  using assms decode_error_nonempty [of lib body e]
    post_except_encodable [OF str_exn_decode_encodable [of lib body e]]
  by (simp add: do_POST_def post_handle_def post_try_def error_line_def error_response_def)

theorem post_decode_error_witness:
  "read_body table_lib not_json_request = Inr (bytes_of ''not-json'') \<and>
   decode_body table_lib (bytes_of ''not-json'') =
     Inl (JSONDecodeError (Json_error (ascii_of ''Expecting value'') 1 1 0)) \<and>
   do_POST table_lib (init_handler azure_server) not_json_request =
    (None, \<lparr>request_count = 1, server = azure_server\<rparr>,
     [Print (lit ''[Azure-API] Error processing request: Expecting value: line 1 column 1 (char 0)''),
      Send_response 500,
      Send_header ''Content-Type'' ''application/json'',
      End_headers,
      Wfile_write_json
        (JDict [(lit ''error'', JStr (lit ''Expecting value: line 1 column 1 (char 0)''))])]) \<and>
   str_exn (JSONDecodeError (Json_error (ascii_of ''Expecting value'') 1 1 0)) \<noteq> []"
proof -
  have r: "read_body table_lib not_json_request = Inr (bytes_of ''not-json'')"
    by code_simp
  have d: "decode_body table_lib (bytes_of ''not-json'') =
     Inl (JSONDecodeError (Json_error (ascii_of ''Expecting value'') 1 1 0))"
    by code_simp
  note t = post_decode_error [OF r d, of "init_handler azure_server"]
  have c: "do_POST table_lib (init_handler azure_server) not_json_request =
    (None, \<lparr>request_count = 1, server = azure_server\<rparr>,
     [Print (lit ''[Azure-API] Error processing request: Expecting value: line 1 column 1 (char 0)''),
      Send_response 500,
      Send_header ''Content-Type'' ''application/json'',
      End_headers,
      Wfile_write_json
        (JDict [(lit ''error'', JStr (lit ''Expecting value: line 1 column 1 (char 0)''))])])"
    unfolding conjunct1 [OF t] by code_simp
  show ?thesis using r d c conjunct2 [OF t] by simp
qed

text \<open>
  Claim C8. A POST whose body decodes to a JSON value that is not an object (a list, a number,
  a string, a boolean or null) is answered with status 500: \<^verbatim>\<open>data.get\<close> raises
  \<^verbatim>\<open>AttributeError\<close> inside the \<^verbatim>\<open>try\<close>, and the error document carries its text.
\<close>

theorem post_non_object:
  assumes "read_body lib req = Inr body"
    and "decode_body lib body = Inr data"
    and "\<And>d. data \<noteq> JDict d"
  shows "do_POST lib h req =
    (None, h\<lparr>request_count := request_count h + 1\<rparr>,
     [Print (lit ''['' @ asc (server_name (server h)) @ lit ''] Error processing request: '' @
             str_exn (AttributeError (type_name data) (ascii_of ''get''))),
      Send_response 500,
      Send_header ''Content-Type'' ''application/json'',
      End_headers,
      Wfile_write_json
        (JDict [(lit ''error'', JStr (str_exn (AttributeError (type_name data) (ascii_of ''get''))))])])"
proof -
  from assms(3)
  have g: "data_get data (lit ''id'') (JStr (lit ''unknown'')) =
      Inl (AttributeError (type_name data) (ascii_of ''get''))"
    by (cases data) (auto simp: data_get_def)
  from assms(1,2) g
    post_except_encodable [OF str_exn_attribute_encodable [of lib "type_name data" "ascii_of ''get''"]]
  show ?thesis
    by (simp add: do_POST_def post_handle_def post_try_def error_line_def error_response_def)
qed

theorem post_non_object_witness:
  "read_body table_lib list_request = Inr (bytes_of ''[1]'') \<and>
   decode_body table_lib (bytes_of ''[1]'') = Inr (JList [JInt 1]) \<and>
   (\<forall>d. JList [JInt 1] \<noteq> JDict d) \<and>
   do_POST table_lib (init_handler aws_server) list_request =
    (None, \<lparr>request_count = 1, server = aws_server\<rparr>,
     [Print (lit (''[AWS-API] Error processing request: '' @ [CHR 0x27] @ ''list'' @ [CHR 0x27] @
                  '' object has no attribute '' @ [CHR 0x27] @ ''get'' @ [CHR 0x27])),
      Send_response 500,
      Send_header ''Content-Type'' ''application/json'',
      End_headers,
      Wfile_write_json
        (JDict [(lit ''error'', JStr (lit ([CHR 0x27] @ ''list'' @ [CHR 0x27] @
                 '' object has no attribute '' @ [CHR 0x27] @ ''get'' @ [CHR 0x27])))])])"
proof -
  have r: "read_body table_lib list_request = Inr (bytes_of ''[1]'')"
    by code_simp
  have d: "decode_body table_lib (bytes_of ''[1]'') = Inr (JList [JInt 1])"
    by code_simp
  have n: "\<And>d. JList [JInt 1] \<noteq> JDict d"
    by simp
  have c: "do_POST table_lib (init_handler aws_server) list_request =
    (None, \<lparr>request_count = 1, server = aws_server\<rparr>,
     [Print (lit (''[AWS-API] Error processing request: '' @ [CHR 0x27] @ ''list'' @ [CHR 0x27] @
                  '' object has no attribute '' @ [CHR 0x27] @ ''get'' @ [CHR 0x27])),
      Send_response 500,
      Send_header ''Content-Type'' ''application/json'',
      End_headers,
      Wfile_write_json
        (JDict [(lit ''error'', JStr (lit ([CHR 0x27] @ ''list'' @ [CHR 0x27] @
                 '' object has no attribute '' @ [CHR 0x27] @ ''get'' @ [CHR 0x27])))])])"
    unfolding post_non_object [OF r d n] by code_simp
  show ?thesis using r d n c by simp
qed

subsection \<open>\<^verbatim>\<open>do_GET\<close>, the header and the counter\<close>

text \<open>
  Claim C3. Every GET is answered with status 200 and the health record with \<open>status\<close>
  "healthy", \<open>service\<close> the label of the listener and a \<open>timestamp\<close>. The method returns
  without an exception, and the path, the headers and the request stream have no influence
  on what it does.
\<close>

theorem get_healthy:
  "do_GET h req =
    (None, h,
     [Send_response 200,
      Send_header ''Content-Type'' ''application/json'',
      End_headers,
      Wfile_write_json
        (JDict [(lit ''status'', JStr (lit ''healthy'')),
                (lit ''service'', JStr (asc (server_name (server h)))),
                (lit ''timestamp'', JFloat (clock req))])]) \<and>
   do_GET h (req\<lparr>path := p, headers := hs, rfile := b\<rparr>) = do_GET h req"
  by (simp add: do_GET_def send_simps health_response_def)

text \<open>
  Claim C9. When the header \<^verbatim>\<open>Content-Length\<close> is present and \<^verbatim>\<open>int\<close> raises on its value,
  the exception leaves \<^verbatim>\<open>do_POST\<close> before the \<^verbatim>\<open>try\<close>: the method writes nothing, neither
  the success record nor the error record. (When \<^verbatim>\<open>urlparse\<close> has raised on the path, that
  exception is the one that leaves the method.)
\<close>

theorem post_bad_content_length:
  assumes "headers_get (headers req) ''Content-Length'' = Some v"
    and "int_of_str lib v = Inl e"
  shows "do_POST lib h req =
    (Some (case urlparse lib (path req) of Some u \<Rightarrow> u | None \<Rightarrow> e),
     h\<lparr>request_count := request_count h + 1\<rparr>, [])"
  using assms
  by (simp add: do_POST_def read_body_def content_length_def split: option.splits)

theorem post_bad_content_length_witness:
  "headers_get (headers bad_length_request) ''Content-Length'' = Some ''abc'' \<and>
   int_of_str table_lib ''abc'' =
     Inl (ValueError (lit (''invalid literal for int() with base 10: '' @ [CHR 0x27] @ ''abc'' @ [CHR 0x27]))) \<and>
   do_POST table_lib (init_handler aws_server) bad_length_request =
    (Some (ValueError (lit (''invalid literal for int() with base 10: '' @ [CHR 0x27] @ ''abc'' @ [CHR 0x27]))),
     \<lparr>request_count = 1, server = aws_server\<rparr>, [])"
proof -
  have g: "headers_get (headers bad_length_request) ''Content-Length'' = Some ''abc''"
    by code_simp
  have i: "int_of_str table_lib ''abc'' =
     Inl (ValueError (lit (''invalid literal for int() with base 10: '' @ [CHR 0x27] @ ''abc'' @ [CHR 0x27])))"
    by code_simp
  have c: "do_POST table_lib (init_handler aws_server) bad_length_request =
    (Some (ValueError (lit (''invalid literal for int() with base 10: '' @ [CHR 0x27] @ ''abc'' @ [CHR 0x27]))),
     \<lparr>request_count = 1, server = aws_server\<rparr>, [])"
    unfolding post_bad_content_length [OF g i] by code_simp
  show ?thesis using g i c by simp
qed

text \<open>
  Claim C10. Every call of \<^verbatim>\<open>do_POST\<close> adds one to the counter, whatever the call does
  afterwards (also when the statements before the \<^verbatim>\<open>try\<close> raise, and when the decode
  fails) and changes nothing else of the handler; \<^verbatim>\<open>do_GET\<close> leaves the handler as it was.
\<close>

theorem counter_only_state:
  "fst (snd (do_POST lib h req)) = h\<lparr>request_count := request_count h + 1\<rparr> \<and>
   fst (snd (do_GET h req)) = h"
  by (simp add: do_POST_def do_GET_def Let_def split: sum.splits prod.splits)

subsection \<open>The labels of the listeners\<close>

lemma key_distinct: "lit ''message'' \<noteq> lit ''success''" "lit ''service'' \<noteq> lit ''status''"
  by code_simp+

lemma labelled_success: "labelled_response (server_name (server h)) (success_response h idv now)"
  by (simp add: labelled_response_def success_response_def key_distinct)

lemma labelled_health: "labelled_response (server_name (server h)) (health_response h now)"
  by (simp add: labelled_response_def health_response_def key_distinct)

lemma labelled_error: "labelled_response name (error_response e)"
  by (simp add: labelled_response_def error_response_def)

lemma post_try_labelled:
  "post_try lib h req body = (evs, r) \<Longrightarrow> Wfile_write_json v \<in> set evs \<Longrightarrow>
   labelled_response (server_name (server h)) v"
  by (auto simp: post_try_def print_line_def send_simps Let_def labelled_success
      split: sum.splits if_splits)

lemma post_except_labelled:
  "post_except lib h e = (r, evs) \<Longrightarrow> Wfile_write_json v \<in> set evs \<Longrightarrow>
   labelled_response (server_name (server h)) v"
  by (auto simp: post_except_def print_line_def send_simps Let_def labelled_error
      split: sum.splits if_splits)

lemma post_handle_labelled:
  assumes "post_handle lib h req body = (r, evs)"
    and "Wfile_write_json v \<in> set evs"
  shows "labelled_response (server_name (server h)) v"
proof -
  obtain evs1 r1 where t: "post_try lib h req body = (evs1, r1)"
    by (cases "post_try lib h req body") auto
  show ?thesis
  proof (cases r1)
    case None
    with assms t post_try_labelled [OF t] show ?thesis
      by (simp add: post_handle_def)
  next
    case (Some e)
    obtain r2 evs2 where x: "post_except lib h e = (r2, evs2)"
      by (cases "post_except lib h e") auto
    with assms t Some have "evs = evs1 @ evs2"
      by (simp add: post_handle_def)
    with assms(2) post_try_labelled [OF t] post_except_labelled [OF x] show ?thesis
      by auto
  qed
qed

lemma dispatch_labelled:
  assumes "dispatch lib h req = (r, h', evs)"
  shows "server h' = server h"
    and "Wfile_write_json v \<in> set evs \<Longrightarrow> labelled_response (server_name (server h)) v"
proof -
  show "server h' = server h"
    using assms
    by (auto simp: dispatch_def do_GET_def do_POST_def Let_def
        split: command.splits sum.splits prod.splits)
  assume w: "Wfile_write_json v \<in> set evs"
  show "labelled_response (server_name (server h)) v"
  proof (cases "command req")
    case GET
    with assms w show ?thesis
      by (auto simp: dispatch_def do_GET_def send_simps labelled_health)
  next
    case POST
    with assms w show ?thesis
      using post_handle_labelled [of lib "h\<lparr>request_count := request_count h + 1\<rparr>" req _ r evs v]
      by (auto simp: dispatch_def do_POST_def Let_def split: sum.splits prod.splits)
  qed
qed

lemma handle_labelled:
  "handle lib h reqs = (r, h', evs) \<Longrightarrow>
   server h' = server h \<and>
   (\<forall>v. Wfile_write_json v \<in> set evs \<longrightarrow> labelled_response (server_name (server h)) v)"
proof (induction reqs arbitrary: h r h' evs)
  case Nil
  then show ?case by simp
next
  case (Cons req reqs)
  obtain r1 h1 evs1 where d: "dispatch lib h req = (r1, h1, evs1)"
    by (cases "dispatch lib h req") auto
  note k = dispatch_labelled [OF d]
  show ?case
  proof (cases r1)
    case (Some e)
    with Cons.prems d k show ?thesis by auto
  next
    case None
    obtain r2 h2 evs2 where t: "handle lib h1 reqs = (r2, h2, evs2)"
      by (cases "handle lib h1 reqs") auto
    from Cons.IH [OF t] k(1)
    have "server h2 = server h"
      and "\<forall>v. Wfile_write_json v \<in> set evs2 \<longrightarrow> labelled_response (server_name (server h)) v"
      by simp_all
    moreover from Cons.prems d None t have "h' = h2" "evs = evs1 @ evs2" by simp_all
    ultimately show ?thesis using k(2) by auto
  qed
qed

lemma serve_forever_labelled:
  "serve_forever lib srv conns = (srv', evs) \<Longrightarrow>
   srv' = srv \<and> (\<forall>v. Wfile_write_json v \<in> set evs \<longrightarrow> labelled_response (server_name srv) v)"
proof (induction conns arbitrary: srv srv' evs)
  case Nil
  then show ?case by simp
next
  case (Cons conn conns)
  obtain r h evs1 where m: "MockEndpointHandler lib srv conn = (r, h, evs1)"
    by (cases "MockEndpointHandler lib srv conn") auto
  then have "handle lib (init_handler srv) conn = (r, h, evs1)"
    by (simp add: MockEndpointHandler_def)
  from handle_labelled [OF this]
  have s: "server h = srv"
    and l: "\<forall>v. Wfile_write_json v \<in> set evs1 \<longrightarrow> labelled_response (server_name srv) v"
    by (simp_all add: init_handler_def)
  obtain srv2 evs2 where t: "serve_forever lib srv conns = (srv2, evs2)"
    by (cases "serve_forever lib srv conns") auto
  from Cons.IH [OF t]
  have "srv2 = srv"
    and "\<forall>v. Wfile_write_json v \<in> set evs2 \<longrightarrow> labelled_response (server_name srv) v"
    by simp_all
  moreover from Cons.prems m s t have "srv' = srv2" "evs = evs1 @ evs2" by simp_all
  ultimately show ?case using l by auto
qed

lemma run_mock_server_labelled:
  "server_name (fst (run_mock_server lib port name conns)) = name \<and>
   (\<forall>v. Wfile_write_json v \<in> set (snd (run_mock_server lib port name conns)) \<longrightarrow>
        labelled_response name v)"
  using serve_forever_labelled
    [of lib "\<lparr>server_address = (''0.0.0.0'', port), server_name = name\<rparr>" conns
        "fst (run_mock_server lib port name conns)" "snd (run_mock_server lib port name conns)"]
  by (simp add: run_mock_server_def)

text \<open>
  Claim C4. Whatever connections the listener started with \<^verbatim>\<open>(8081, "AWS-API")\<close> has
  handled, its label is still "AWS-API" and every document it has written is a success
  record or a health record with that label, or an error record; likewise for the listener
  started with \<^verbatim>\<open>(8082, "Azure-API")\<close> and "Azure-API".
\<close>

theorem listener_labels:
  "server_name (fst (aws_listener lib conns)) = ascii_of ''AWS-API'' \<and>
   (\<forall>v. Wfile_write_json v \<in> set (snd (aws_listener lib conns)) \<longrightarrow>
        labelled_response (ascii_of ''AWS-API'') v) \<and>
   server_name (fst (azure_listener lib conns')) = ascii_of ''Azure-API'' \<and>
   (\<forall>v. Wfile_write_json v \<in> set (snd (azure_listener lib conns')) \<longrightarrow>
        labelled_response (ascii_of ''Azure-API'') v)"
  using run_mock_server_labelled [of lib 8081 "ascii_of ''AWS-API''" conns]
    run_mock_server_labelled [of lib 8082 "ascii_of ''Azure-API''" conns']
  by (simp add: aws_listener_def azure_listener_def)

theorem listener_labels_witness:
  "Wfile_write_json
     (JDict [(lit ''status'', JStr (lit ''healthy'')), (lit ''service'', JStr (lit ''AWS-API'')),
             (lit ''timestamp'', JFloat 0x41DA6B1A4B400000)])
     \<in> set (snd (aws_listener table_lib aws_connections)) \<and>
   labelled_response (ascii_of ''AWS-API'')
     (JDict [(lit ''status'', JStr (lit ''healthy'')), (lit ''service'', JStr (lit ''AWS-API'')),
             (lit ''timestamp'', JFloat 0x41DA6B1A4B400000)]) \<and>
   Wfile_write_json
     (JDict [(lit ''success'', JBool True),
             (lit ''message'', JStr (lit ''Data saved successfully to Azure-API'')),
             (lit ''id'', JStr (lit ''txn-42'')),
             (lit ''timestamp'', JFloat 0x41DA6B1A4B400000)])
     \<in> set (snd (azure_listener table_lib azure_connections)) \<and>
   labelled_response (ascii_of ''Azure-API'')
     (JDict [(lit ''success'', JBool True),
             (lit ''message'', JStr (lit ''Data saved successfully to Azure-API'')),
             (lit ''id'', JStr (lit ''txn-42'')),
             (lit ''timestamp'', JFloat 0x41DA6B1A4B400000)])"
proof -
  have a: "Wfile_write_json
     (JDict [(lit ''status'', JStr (lit ''healthy'')), (lit ''service'', JStr (lit ''AWS-API'')),
             (lit ''timestamp'', JFloat 0x41DA6B1A4B400000)])
     \<in> set (snd (aws_listener table_lib aws_connections))"
    by code_simp
  have z: "Wfile_write_json
     (JDict [(lit ''success'', JBool True),
             (lit ''message'', JStr (lit ''Data saved successfully to Azure-API'')),
             (lit ''id'', JStr (lit ''txn-42'')),
             (lit ''timestamp'', JFloat 0x41DA6B1A4B400000)])
     \<in> set (snd (azure_listener table_lib azure_connections))"
    by code_simp
  show ?thesis
    using a z listener_labels [of table_lib aws_connections azure_connections]
    by blast
qed

subsection \<open>The body read and the log line\<close>

lemma do_POST_decode_error:
  assumes "read_body lib req = Inr body"
    and "decode_body lib body = Inl e"
  shows "do_POST lib h req =
    (None, h\<lparr>request_count := request_count h + 1\<rparr>,
     [Print (error_line h e), Send_response 500,
      Send_header ''Content-Type'' ''application/json'', End_headers,
      Wfile_write_json (error_response e)])"
  using assms post_except_encodable [OF str_exn_decode_encodable [of lib body e]]
  by (simp add: do_POST_def post_handle_def post_try_def error_line_def)

lemma do_POST_non_object:
  assumes "read_body lib req = Inr body"
    and "decode_body lib body = Inr data"
    and "\<And>d. data \<noteq> JDict d"
  shows "do_POST lib h req =
    (None, h\<lparr>request_count := request_count h + 1\<rparr>,
     [Print (error_line h (AttributeError (type_name data) (ascii_of ''get''))), Send_response 500,
      Send_header ''Content-Type'' ''application/json'', End_headers,
      Wfile_write_json (error_response (AttributeError (type_name data) (ascii_of ''get'')))])"
proof -
  from assms(3)
  have g: "data_get data (lit ''id'') (JStr (lit ''unknown'')) =
      Inl (AttributeError (type_name data) (ascii_of ''get''))"
    by (cases data) (auto simp: data_get_def)
  from assms(1,2) g
    post_except_encodable [OF str_exn_attribute_encodable [of lib "type_name data" "ascii_of ''get''"]]
  show ?thesis
    by (simp add: do_POST_def post_handle_def post_try_def error_line_def)
qed

lemma do_POST_object:
  assumes "read_body lib req = Inr body"
    and "decode_body lib body = Inr (JDict d)"
    and "list_all (encodable lib)
           (format_value lib (case map_of d (lit ''id'') of Some v \<Rightarrow> v | None \<Rightarrow> JStr (lit ''unknown'')))"
  shows "do_POST lib h req =
    (None, h\<lparr>request_count := request_count h + 1\<rparr>,
     [Print (lit ''['' @ asc (server_name (server h)) @ lit ''] Received request #'' @
             lit (show_int (request_count h + 1)) @ lit '': '' @
             format_value lib (case map_of d (lit ''id'') of Some v \<Rightarrow> v | None \<Rightarrow> JStr (lit ''unknown''))),
      Sleep_ms 100,
      Send_response 200,
      Send_header ''Content-Type'' ''application/json'',
      End_headers,
      Wfile_write_json
        (JDict [(lit ''success'', JBool True),
                (lit ''message'', JStr (lit ''Data saved successfully to '' @ asc (server_name (server h)))),
                (lit ''id'', case map_of d (lit ''id'') of Some v \<Rightarrow> v | None \<Rightarrow> JNull),
                (lit ''timestamp'', JFloat (clock req))])])"
  using post_try_dict [OF assms(2,3)] assms(1)
  by (simp add: do_POST_def post_handle_def received_line_def success_response_def)

lemma str_expecting_value:
  "str_exn (JSONDecodeError (Json_error (ascii_of ''Expecting value'') 1 1 0)) =
   lit ''Expecting value: line 1 column 1 (char 0)''"
  by code_simp

text \<open>
  Claim C6, amended. When \<^verbatim>\<open>urlparse\<close> accepts the path: without a \<^verbatim>\<open>Content-Length\<close> header the
  handler reads no byte, the decode of the empty input fails and the answer is the error
  record with status 500; with a header whose value \<^verbatim>\<open>int\<close> converts to \<open>n\<close>, where
  \<open>0 \<le> n < 2 ^ 63\<close>, the stream holds at least \<open>n\<close> bytes and \<open>n\<close> bytes can be allocated, the
  handler reads exactly the first \<open>n\<close> bytes and the decode is applied to exactly those:
  what it raises is the error reported, and what it returns is the document handled.
\<close>

theorem body_read_by_content_length:
  assumes "urlparse lib (path req) = None"
  shows "(headers_get (headers req) ''Content-Length'' = None \<longrightarrow>
            read_body lib req = Inr [] \<and>
            decode_body lib [] =
              Inl (JSONDecodeError (Json_error (ascii_of ''Expecting value'') 1 1 0)) \<and>
            do_POST lib h req =
              (None, h\<lparr>request_count := request_count h + 1\<rparr>,
               [Print (lit ''['' @ asc (server_name (server h)) @
                       lit ''] Error processing request: '' @
                       lit ''Expecting value: line 1 column 1 (char 0)''),
                Send_response 500,
                Send_header ''Content-Type'' ''application/json'',
                End_headers,
                Wfile_write_json
                  (JDict [(lit ''error'', JStr (lit ''Expecting value: line 1 column 1 (char 0)''))])])) \<and>
         (\<forall>v n. headers_get (headers req) ''Content-Length'' = Some v \<and>
                int_of_str lib v = Inr n \<and> 0 \<le> n \<and> n \<le> int (length (rfile req)) \<and>
                n < 2 ^ 63 \<and> (n = 0 \<or> can_allocate lib n) \<longrightarrow>
            read_body lib req = Inr (take (nat n) (rfile req)) \<and>
            int (length (take (nat n) (rfile req))) = n \<and>
            (\<forall>e. decode_body lib (take (nat n) (rfile req)) = Inl e \<longrightarrow>
               do_POST lib h req =
                 (None, h\<lparr>request_count := request_count h + 1\<rparr>,
                  [Print (lit ''['' @ asc (server_name (server h)) @
                          lit ''] Error processing request: '' @ str_exn e),
                   Send_response 500,
                   Send_header ''Content-Type'' ''application/json'',
                   End_headers,
                   Wfile_write_json (JDict [(lit ''error'', JStr (str_exn e))])])) \<and>
            (\<forall>data. decode_body lib (take (nat n) (rfile req)) = Inr data \<and>
                    (\<forall>d. data \<noteq> JDict d) \<longrightarrow>
               do_POST lib h req =
                 (None, h\<lparr>request_count := request_count h + 1\<rparr>,
                  [Print (lit ''['' @ asc (server_name (server h)) @
                          lit ''] Error processing request: '' @
                          str_exn (AttributeError (type_name data) (ascii_of ''get''))),
                   Send_response 500,
                   Send_header ''Content-Type'' ''application/json'',
                   End_headers,
                   Wfile_write_json
                     (JDict [(lit ''error'',
                              JStr (str_exn (AttributeError (type_name data) (ascii_of ''get''))))])])) \<and>
            (\<forall>d. decode_body lib (take (nat n) (rfile req)) = Inr (JDict d) \<and>
                 list_all (encodable lib)
                   (format_value lib
                      (case map_of d (lit ''id'') of Some v \<Rightarrow> v | None \<Rightarrow> JStr (lit ''unknown''))) \<longrightarrow>
               do_POST lib h req =
                 (None, h\<lparr>request_count := request_count h + 1\<rparr>,
                  [Print (lit ''['' @ asc (server_name (server h)) @ lit ''] Received request #'' @
                          lit (show_int (request_count h + 1)) @ lit '': '' @
                          format_value lib
                            (case map_of d (lit ''id'') of Some v \<Rightarrow> v | None \<Rightarrow> JStr (lit ''unknown''))),
                   Sleep_ms 100,
                   Send_response 200,
                   Send_header ''Content-Type'' ''application/json'',
                   End_headers,
                   Wfile_write_json
                     (JDict [(lit ''success'', JBool True),
                             (lit ''message'',
                              JStr (lit ''Data saved successfully to '' @ asc (server_name (server h)))),
                             (lit ''id'', case map_of d (lit ''id'') of Some v \<Rightarrow> v | None \<Rightarrow> JNull),
                             (lit ''timestamp'', JFloat (clock req))])])))"
proof (intro conjI impI allI)
  assume g: "headers_get (headers req) ''Content-Length'' = None"
  with assms show r: "read_body lib req = Inr []"
    by (simp add: read_body_def content_length_def rfile_read_def)
  show "decode_body lib [] = Inl (JSONDecodeError (Json_error (ascii_of ''Expecting value'') 1 1 0))"
    by (rule decode_empty)
  from do_POST_decode_error [OF r decode_empty, of h]
  show "do_POST lib h req =
      (None, h\<lparr>request_count := request_count h + 1\<rparr>,
       [Print (lit ''['' @ asc (server_name (server h)) @
               lit ''] Error processing request: '' @
               lit ''Expecting value: line 1 column 1 (char 0)''),
        Send_response 500,
        Send_header ''Content-Type'' ''application/json'',
        End_headers,
        Wfile_write_json
          (JDict [(lit ''error'', JStr (lit ''Expecting value: line 1 column 1 (char 0)''))])])"
    by (simp only: error_line_def error_response_def str_expecting_value)
next
  fix v n
  assume a: "headers_get (headers req) ''Content-Length'' = Some v \<and>
     int_of_str lib v = Inr n \<and> 0 \<le> n \<and> n \<le> int (length (rfile req)) \<and>
     n < 2 ^ 63 \<and> (n = 0 \<or> can_allocate lib n)"
  with assms show r: "read_body lib req = Inr (take (nat n) (rfile req))"
    by (auto simp: read_body_def content_length_def rfile_read_def)
  from a show "int (length (take (nat n) (rfile req))) = n"
    by (simp add: min_def) linarith
  {
    fix e
    assume "decode_body lib (take (nat n) (rfile req)) = Inl e"
    from do_POST_decode_error [OF r this, of h]
    show "do_POST lib h req =
      (None, h\<lparr>request_count := request_count h + 1\<rparr>,
       [Print (lit ''['' @ asc (server_name (server h)) @
               lit ''] Error processing request: '' @ str_exn e),
        Send_response 500,
        Send_header ''Content-Type'' ''application/json'',
        End_headers,
        Wfile_write_json (JDict [(lit ''error'', JStr (str_exn e))])])"
      by (simp add: error_line_def error_response_def)
  }
  {
    fix data
    assume "decode_body lib (take (nat n) (rfile req)) = Inr data \<and> (\<forall>d. data \<noteq> JDict d)"
    then have d: "decode_body lib (take (nat n) (rfile req)) = Inr data"
      and n: "\<And>d. data \<noteq> JDict d"
      by simp_all
    from do_POST_non_object [OF r d n, of h]
    show "do_POST lib h req =
      (None, h\<lparr>request_count := request_count h + 1\<rparr>,
       [Print (lit ''['' @ asc (server_name (server h)) @
               lit ''] Error processing request: '' @
               str_exn (AttributeError (type_name data) (ascii_of ''get''))),
        Send_response 500,
        Send_header ''Content-Type'' ''application/json'',
        End_headers,
        Wfile_write_json
          (JDict [(lit ''error'',
                   JStr (str_exn (AttributeError (type_name data) (ascii_of ''get''))))])])"
      by (simp add: error_line_def error_response_def)
  }
  {
    fix d
    assume "decode_body lib (take (nat n) (rfile req)) = Inr (JDict d) \<and>
       list_all (encodable lib)
         (format_value lib
            (case map_of d (lit ''id'') of Some v \<Rightarrow> v | None \<Rightarrow> JStr (lit ''unknown'')))"
    then have d: "decode_body lib (take (nat n) (rfile req)) = Inr (JDict d)"
      and p: "list_all (encodable lib)
         (format_value lib
            (case map_of d (lit ''id'') of Some v \<Rightarrow> v | None \<Rightarrow> JStr (lit ''unknown'')))"
      by simp_all
    from do_POST_object [OF r d p, of h]
    show "do_POST lib h req =
      (None, h\<lparr>request_count := request_count h + 1\<rparr>,
       [Print (lit ''['' @ asc (server_name (server h)) @ lit ''] Received request #'' @
               lit (show_int (request_count h + 1)) @ lit '': '' @
               format_value lib
                 (case map_of d (lit ''id'') of Some v \<Rightarrow> v | None \<Rightarrow> JStr (lit ''unknown''))),
        Sleep_ms 100,
        Send_response 200,
        Send_header ''Content-Type'' ''application/json'',
        End_headers,
        Wfile_write_json
          (JDict [(lit ''success'', JBool True),
                  (lit ''message'',
                   JStr (lit ''Data saved successfully to '' @ asc (server_name (server h)))),
                  (lit ''id'', case map_of d (lit ''id'') of Some v \<Rightarrow> v | None \<Rightarrow> JNull),
                  (lit ''timestamp'', JFloat (clock req))])])"
      by simp
  }
qed

theorem body_read_by_content_length_witness:
  "urlparse table_lib (path no_length_request) = None \<and>
   headers_get (headers no_length_request) ''Content-Length'' = None \<and>
   read_body table_lib no_length_request = Inr [] \<and>
   do_POST table_lib (init_handler aws_server) no_length_request =
     (None, \<lparr>request_count = 1, server = aws_server\<rparr>,
      [Print (lit ''[AWS-API] Error processing request: Expecting value: line 1 column 1 (char 0)''),
       Send_response 500,
       Send_header ''Content-Type'' ''application/json'',
       End_headers,
       Wfile_write_json
         (JDict [(lit ''error'', JStr (lit ''Expecting value: line 1 column 1 (char 0)''))])]) \<and>
   urlparse table_lib (path txn_request) = None \<and>
   headers_get (headers txn_request) ''Content-Length'' = Some ''16'' \<and>
   int_of_str table_lib ''16'' = Inr 16 \<and>
   (16::int) \<le> int (length (rfile txn_request)) \<and>
   can_allocate table_lib 16 \<and>
   read_body table_lib txn_request = Inr (take (nat 16) (rfile txn_request)) \<and>
   int (length (take (nat 16) (rfile txn_request))) = 16 \<and>
   take (nat 16) (rfile txn_request) = bytes_of ''{\"id\": \"txn-42\"}'' \<and>
   decode_body table_lib (take (nat 16) (rfile txn_request)) =
     Inr (JDict [(lit ''id'', JStr (lit ''txn-42''))]) \<and>
   do_POST table_lib (init_handler aws_server) txn_request =
    (None, \<lparr>request_count = 1, server = aws_server\<rparr>,
     [Print (lit ''[AWS-API] Received request #1: txn-42''),
      Sleep_ms 100,
      Send_response 200,
      Send_header ''Content-Type'' ''application/json'',
      End_headers,
      Wfile_write_json
        (JDict [(lit ''success'', JBool True),
                (lit ''message'', JStr (lit ''Data saved successfully to AWS-API'')),
                (lit ''id'', JStr (lit ''txn-42'')),
                (lit ''timestamp'', JFloat 0x41DA6B1A4B400000)])])"
proof -
  have u1: "urlparse table_lib (path no_length_request) = None"
    by code_simp
  have g1: "headers_get (headers no_length_request) ''Content-Length'' = None"
    by code_simp
  note t1 = body_read_by_content_length [OF u1, of "init_handler aws_server"]
  from t1 g1 have r1: "read_body table_lib no_length_request = Inr []"
    by blast
  from t1 g1 have p1: "do_POST table_lib (init_handler aws_server) no_length_request =
     (None, (init_handler aws_server)\<lparr>request_count := request_count (init_handler aws_server) + 1\<rparr>,
      [Print (lit ''['' @ asc (server_name (server (init_handler aws_server))) @
              lit ''] Error processing request: '' @
              lit ''Expecting value: line 1 column 1 (char 0)''),
       Send_response 500,
       Send_header ''Content-Type'' ''application/json'',
       End_headers,
       Wfile_write_json
         (JDict [(lit ''error'', JStr (lit ''Expecting value: line 1 column 1 (char 0)''))])])"
    by blast
  have c1: "do_POST table_lib (init_handler aws_server) no_length_request =
     (None, \<lparr>request_count = 1, server = aws_server\<rparr>,
      [Print (lit ''[AWS-API] Error processing request: Expecting value: line 1 column 1 (char 0)''),
       Send_response 500,
       Send_header ''Content-Type'' ''application/json'',
       End_headers,
       Wfile_write_json
         (JDict [(lit ''error'', JStr (lit ''Expecting value: line 1 column 1 (char 0)''))])])"
    unfolding p1 by code_simp
  have u2: "urlparse table_lib (path txn_request) = None"
    by code_simp
  have g2: "headers_get (headers txn_request) ''Content-Length'' = Some ''16''"
    by code_simp
  have i2: "int_of_str table_lib ''16'' = Inr 16"
    by code_simp
  have l2: "(16::int) \<le> int (length (rfile txn_request))"
    by code_simp
  have z2: "(0::int) \<le> 16" "(16::int) < 2 ^ 63"
    by simp_all
  have a2: "can_allocate table_lib 16"
    by code_simp
  note t2 = body_read_by_content_length [OF u2, of "init_handler aws_server"]
  from t2 g2 i2 l2 z2 a2
  have k2: "read_body table_lib txn_request = Inr (take (nat 16) (rfile txn_request)) \<and>
     int (length (take (nat 16) (rfile txn_request))) = 16 \<and>
     (\<forall>d. decode_body table_lib (take (nat 16) (rfile txn_request)) = Inr (JDict d) \<and>
          list_all (encodable table_lib)
            (format_value table_lib
               (case map_of d (lit ''id'') of Some v \<Rightarrow> v | None \<Rightarrow> JStr (lit ''unknown''))) \<longrightarrow>
        do_POST table_lib (init_handler aws_server) txn_request =
          (None, (init_handler aws_server)\<lparr>request_count := request_count (init_handler aws_server) + 1\<rparr>,
           [Print (lit ''['' @ asc (server_name (server (init_handler aws_server))) @
                   lit ''] Received request #'' @
                   lit (show_int (request_count (init_handler aws_server) + 1)) @ lit '': '' @
                   format_value table_lib
                     (case map_of d (lit ''id'') of Some v \<Rightarrow> v | None \<Rightarrow> JStr (lit ''unknown''))),
            Sleep_ms 100,
            Send_response 200,
            Send_header ''Content-Type'' ''application/json'',
            End_headers,
            Wfile_write_json
              (JDict [(lit ''success'', JBool True),
                      (lit ''message'',
                       JStr (lit ''Data saved successfully to '' @
                             asc (server_name (server (init_handler aws_server))))),
                      (lit ''id'', case map_of d (lit ''id'') of Some v \<Rightarrow> v | None \<Rightarrow> JNull),
                      (lit ''timestamp'', JFloat (clock txn_request))])]))"
    by blast
  have b2: "take (nat 16) (rfile txn_request) = bytes_of ''{\"id\": \"txn-42\"}''"
    by code_simp
  have d2: "decode_body table_lib (take (nat 16) (rfile txn_request)) =
     Inr (JDict [(lit ''id'', JStr (lit ''txn-42''))])"
    by code_simp
  have e2: "list_all (encodable table_lib)
     (format_value table_lib
        (case map_of [(lit ''id'', JStr (lit ''txn-42''))] (lit ''id'') of
           Some v \<Rightarrow> v | None \<Rightarrow> JStr (lit ''unknown'')))"
    by code_simp
  from k2 d2 e2
  have p2: "do_POST table_lib (init_handler aws_server) txn_request =
    (None, (init_handler aws_server)\<lparr>request_count := request_count (init_handler aws_server) + 1\<rparr>,
     [Print (lit ''['' @ asc (server_name (server (init_handler aws_server))) @
             lit ''] Received request #'' @
             lit (show_int (request_count (init_handler aws_server) + 1)) @ lit '': '' @
             format_value table_lib
               (case map_of [(lit ''id'', JStr (lit ''txn-42''))] (lit ''id'') of
                  Some v \<Rightarrow> v | None \<Rightarrow> JStr (lit ''unknown''))),
      Sleep_ms 100,
      Send_response 200,
      Send_header ''Content-Type'' ''application/json'',
      End_headers,
      Wfile_write_json
        (JDict [(lit ''success'', JBool True),
                (lit ''message'',
                 JStr (lit ''Data saved successfully to '' @
                       asc (server_name (server (init_handler aws_server))))),
                (lit ''id'', case map_of [(lit ''id'', JStr (lit ''txn-42''))] (lit ''id'') of
                               Some v \<Rightarrow> v | None \<Rightarrow> JNull),
                (lit ''timestamp'', JFloat (clock txn_request))])])"
    by blast
  have c2: "do_POST table_lib (init_handler aws_server) txn_request =
    (None, \<lparr>request_count = 1, server = aws_server\<rparr>,
     [Print (lit ''[AWS-API] Received request #1: txn-42''),
      Sleep_ms 100,
      Send_response 200,
      Send_header ''Content-Type'' ''application/json'',
      End_headers,
      Wfile_write_json
        (JDict [(lit ''success'', JBool True),
                (lit ''message'', JStr (lit ''Data saved successfully to AWS-API'')),
                (lit ''id'', JStr (lit ''txn-42'')),
                (lit ''timestamp'', JFloat 0x41DA6B1A4B400000)])])"
    unfolding p2 by code_simp
  show ?thesis
    using u1 g1 r1 c1 u2 g2 i2 l2 a2 k2 b2 d2 c2 by blast
qed

text \<open>
  Claim C6 as stated (every POST reads exactly \<^verbatim>\<open>Content-Length\<close> bytes and decodes them)
  fails: with the header value "abc" and with a path that \<^verbatim>\<open>urlparse\<close> rejects nothing is
  read; with the value "20" and a stream of 16 bytes the 16 bytes are read; with the value
  "-1" the 16 bytes of the stream are read; with the value \<open>2 ^ 63\<close> the read raises
  \<^verbatim>\<open>OverflowError\<close>, and with \<open>2 ^ 62\<close>, which the machine cannot allocate, \<^verbatim>\<open>MemoryError\<close>.
\<close>

theorem body_read_counterexample:
  "headers_get (headers bad_length_request) ''Content-Length'' = Some ''abc'' \<and>
   read_body table_lib bad_length_request =
     Inl (ValueError (lit (''invalid literal for int() with base 10: '' @ [CHR 0x27] @ ''abc'' @ [CHR 0x27]))) \<and>
   read_body table_lib bad_path_request = Inl (ValueError (lit ''Invalid IPv6 URL'')) \<and>
   content_length table_lib long_request = Inr 20 \<and>
   read_body table_lib long_request = Inr (bytes_of ''{\"id\": \"txn-42\"}'') \<and>
   content_length table_lib negative_length_request = Inr (- 1) \<and>
   read_body table_lib negative_length_request = Inr (bytes_of ''{\"id\": \"txn-42\"}'') \<and>
   length (bytes_of ''{\"id\": \"txn-42\"}'') = 16 \<and>
   content_length table_lib huge_length_request = Inr (2 ^ 63) \<and>
   read_body table_lib huge_length_request =
     Inl (OverflowError (lit ''cannot fit 'int' into an index-sized integer'')) \<and>
   content_length table_lib large_length_request = Inr (2 ^ 62) \<and>
   read_body table_lib large_length_request = Inl MemoryError"
  by (intro conjI; code_simp)

lemma dispatch_count:
  "dispatch lib h req = (None, h', evs) \<Longrightarrow>
   request_count h' = request_count h + (if command req = POST then 1 else 0)"
  by (auto simp: dispatch_def do_GET_def do_POST_def Let_def
      split: command.splits sum.splits prod.splits)

lemma handle_count:
  "handle lib h reqs = (None, h', evs) \<Longrightarrow>
   request_count h' = request_count h + int (length (filter (\<lambda>q. command q = POST) reqs))"
proof (induction reqs arbitrary: h h' evs)
  case Nil
  then show ?case by simp
next
  case (Cons req reqs)
  obtain r1 h1 evs1 where d: "dispatch lib h req = (r1, h1, evs1)"
    by (cases "dispatch lib h req") auto
  obtain r2 h2 evs2 where t: "handle lib h1 reqs = (r2, h2, evs2)"
    by (cases "handle lib h1 reqs") auto
  from Cons.prems d t have n: "r1 = None" "r2 = None" "h' = h2"
    by (auto split: option.splits)
  from dispatch_count [of lib h req h1 evs1] d n
  have "request_count h1 = request_count h + (if command req = POST then 1 else 0)"
    by simp
  moreover from Cons.IH [of h1 h2 evs2] t n
  have "request_count h2 = request_count h1 + int (length (filter (\<lambda>q. command q = POST) reqs))"
    by simp
  ultimately show ?case using n by simp
qed

text \<open>
  Claim C7, amended. A POST whose body decodes to a JSON object, where the console can
  encode the text shown for the \<open>id\<close>, prints the one line
  \<^verbatim>\<open>[<label>] Received request #<n>: <id>\<close>, where \<^verbatim>\<open><id>\<close> is the decoded \<open>id\<close> or "unknown"
  when the object has none and \<^verbatim>\<open><n>\<close> is the counter after the increment of this call. The
  counter is 0 when the handler is constructed, and a handler that has handled a list of
  requests without an exception has counted the POSTs among them. The access log line of
  the framework is empty.
\<close>

theorem received_line_counter:
  assumes "read_body lib req = Inr body"
    and "decode_body lib body = Inr (JDict d)"
    and "list_all (encodable lib)
           (format_value lib (case map_of d (lit ''id'') of Some v \<Rightarrow> v | None \<Rightarrow> JStr (lit ''unknown'')))"
  shows "request_count (init_handler srv) = 0 \<and>
    do_POST lib h req =
    (None, h\<lparr>request_count := request_count h + 1\<rparr>,
     [Print (lit ''['' @ asc (server_name (server h)) @ lit ''] Received request #'' @
             lit (show_int (request_count h + 1)) @ lit '': '' @
             format_value lib (case map_of d (lit ''id'') of Some v \<Rightarrow> v | None \<Rightarrow> JStr (lit ''unknown''))),
      Sleep_ms 100,
      Send_response 200,
      Send_header ''Content-Type'' ''application/json'',
      End_headers,
      Wfile_write_json
        (JDict [(lit ''success'', JBool True),
                (lit ''message'', JStr (lit ''Data saved successfully to '' @ asc (server_name (server h)))),
                (lit ''id'', case map_of d (lit ''id'') of Some v \<Rightarrow> v | None \<Rightarrow> JNull),
                (lit ''timestamp'', JFloat (clock req))])]) \<and>
    log_request h code = [] \<and>
    (\<forall>reqs h' evs. MockEndpointHandler lib srv reqs = (None, h', evs) \<longrightarrow>
       request_count h' = int (length (filter (\<lambda>q. command q = POST) reqs)))"
proof (intro conjI allI impI)
  show "request_count (init_handler srv) = 0"
    by (simp add: init_handler_def)
  show "log_request h code = []"
    by (simp add: log_request_def log_message_def)
  from do_POST_object [OF assms, of h] show "do_POST lib h req =
    (None, h\<lparr>request_count := request_count h + 1\<rparr>,
     [Print (lit ''['' @ asc (server_name (server h)) @ lit ''] Received request #'' @
             lit (show_int (request_count h + 1)) @ lit '': '' @
             format_value lib (case map_of d (lit ''id'') of Some v \<Rightarrow> v | None \<Rightarrow> JStr (lit ''unknown''))),
      Sleep_ms 100,
      Send_response 200,
      Send_header ''Content-Type'' ''application/json'',
      End_headers,
      Wfile_write_json
        (JDict [(lit ''success'', JBool True),
                (lit ''message'', JStr (lit ''Data saved successfully to '' @ asc (server_name (server h)))),
                (lit ''id'', case map_of d (lit ''id'') of Some v \<Rightarrow> v | None \<Rightarrow> JNull),
                (lit ''timestamp'', JFloat (clock req))])])"
    by simp
  fix reqs h' evs
  assume "MockEndpointHandler lib srv reqs = (None, h', evs)"
  then show "request_count h' = int (length (filter (\<lambda>q. command q = POST) reqs))"
    using handle_count [of lib "init_handler srv" reqs h' evs]
    by (simp add: MockEndpointHandler_def init_handler_def)
qed

theorem received_line_counter_witness:
  "read_body table_lib name_request = Inr (bytes_of ''{\"name\": \"x\"}'') \<and>
   decode_body table_lib (bytes_of ''{\"name\": \"x\"}'') = Inr (JDict [(lit ''name'', JStr (lit ''x''))]) \<and>
   list_all (encodable table_lib)
     (format_value table_lib
        (case map_of [(lit ''name'', JStr (lit ''x''))] (lit ''id'') of
           Some v \<Rightarrow> v | None \<Rightarrow> JStr (lit ''unknown''))) \<and>
   request_count (init_handler aws_server) = 0 \<and>
   do_POST table_lib \<lparr>request_count = 1, server = aws_server\<rparr> name_request =
    (None, \<lparr>request_count = 2, server = aws_server\<rparr>,
     [Print (lit ''[AWS-API] Received request #2: unknown''),
      Sleep_ms 100,
      Send_response 200,
      Send_header ''Content-Type'' ''application/json'',
      End_headers,
      Wfile_write_json
        (JDict [(lit ''success'', JBool True),
                (lit ''message'', JStr (lit ''Data saved successfully to AWS-API'')),
                (lit ''id'', JNull),
                (lit ''timestamp'', JFloat 0x41DA6B1A4B400000)])]) \<and>
   log_request \<lparr>request_count = 1, server = aws_server\<rparr> 200 = [] \<and>
   fst (MockEndpointHandler table_lib aws_server three_requests) = None \<and>
   request_count (fst (snd (MockEndpointHandler table_lib aws_server three_requests))) = 2"
proof -
  have r: "read_body table_lib name_request = Inr (bytes_of ''{\"name\": \"x\"}'')"
    by code_simp
  have d: "decode_body table_lib (bytes_of ''{\"name\": \"x\"}'') = Inr (JDict [(lit ''name'', JStr (lit ''x''))])"
    by code_simp
  have p: "list_all (encodable table_lib)
     (format_value table_lib
        (case map_of [(lit ''name'', JStr (lit ''x''))] (lit ''id'') of
           Some v \<Rightarrow> v | None \<Rightarrow> JStr (lit ''unknown'')))"
    by code_simp
  note t = received_line_counter
    [OF r d p, of aws_server "\<lparr>request_count = 1, server = aws_server\<rparr>" 200]
  from t have z: "request_count (init_handler aws_server) = 0"
    by blast
  have c: "do_POST table_lib \<lparr>request_count = 1, server = aws_server\<rparr> name_request =
    (None, \<lparr>request_count = 2, server = aws_server\<rparr>,
     [Print (lit ''[AWS-API] Received request #2: unknown''),
      Sleep_ms 100,
      Send_response 200,
      Send_header ''Content-Type'' ''application/json'',
      End_headers,
      Wfile_write_json
        (JDict [(lit ''success'', JBool True),
                (lit ''message'', JStr (lit ''Data saved successfully to AWS-API'')),
                (lit ''id'', JNull),
                (lit ''timestamp'', JFloat 0x41DA6B1A4B400000)])])"
    unfolding conjunct1 [OF conjunct2 [OF t]] by code_simp
  from t have l: "log_request \<lparr>request_count = 1, server = aws_server\<rparr> 200 = []"
    by blast
  have n: "fst (MockEndpointHandler table_lib aws_server three_requests) = None"
    by code_simp
  then have m: "MockEndpointHandler table_lib aws_server three_requests =
      (None, fst (snd (MockEndpointHandler table_lib aws_server three_requests)),
       snd (snd (MockEndpointHandler table_lib aws_server three_requests)))"
    by (metis prod.collapse)
  have f: "int (length (filter (\<lambda>q. command q = POST) three_requests)) = 2"
    by code_simp
  from t m
  have "request_count (fst (snd (MockEndpointHandler table_lib aws_server three_requests))) =
      int (length (filter (\<lambda>q. command q = POST) three_requests))"
    by blast
  with f have k: "request_count (fst (snd (MockEndpointHandler table_lib aws_server three_requests))) = 2"
    by simp
  show ?thesis
    using r d p z c l n k by blast
qed

text \<open>
  Claim C7 as stated (the line is printed on every successful decode) fails. For a body
  that decodes to a list the decode succeeds and the line printed is the error line. For
  the body \<^verbatim>\<open>{"id": "\ud800"}\<close> on a console with the codec UTF-8 the decode gives an
  object, \<^verbatim>\<open>print\<close> raises on the line, and the line printed is again the error line.
\<close>

theorem received_line_counterexample:
  "read_body table_lib list_request = Inr (bytes_of ''[1]'') \<and>
   decode_body table_lib (bytes_of ''[1]'') = Inr (JList [JInt 1]) \<and>
   do_POST table_lib (init_handler aws_server) list_request =
    (None, \<lparr>request_count = 1, server = aws_server\<rparr>,
     [Print (lit (''[AWS-API] Error processing request: '' @ [CHR 0x27] @ ''list'' @ [CHR 0x27] @
                  '' object has no attribute '' @ [CHR 0x27] @ ''get'' @ [CHR 0x27])),
      Send_response 500,
      Send_header ''Content-Type'' ''application/json'',
      End_headers,
      Wfile_write_json
        (JDict [(lit ''error'', JStr (lit ([CHR 0x27] @ ''list'' @ [CHR 0x27] @
                 '' object has no attribute '' @ [CHR 0x27] @ ''get'' @ [CHR 0x27])))])]) \<and>
   read_body table_lib surrogate_request = Inr (bytes_of surrogate_body) \<and>
   decode_body table_lib (bytes_of surrogate_body) = Inr (JDict [(lit ''id'', JStr [0xD800])]) \<and>
   print_line table_lib (lit ''[AWS-API] Received request #1: '' @ [0xD800]) =
     Inl (UnicodeEncodeError
            (Encode_error (ascii_of ''utf-8'') (lit ''[AWS-API] Received request #1: '' @ [0xD800])
               31 32 (ascii_of ''surrogates not allowed''))) \<and>
   hd (snd (snd (do_POST table_lib (init_handler aws_server) surrogate_request))) =
     Print (lit ''[AWS-API] Error processing request: '' @
            lit ([CHR 0x27] @ ''utf-8'' @ [CHR 0x27] @ '' codec can't encode character '' @
                 [CHR 0x27, CHR 0x5C] @ ''ud800'' @ [CHR 0x27] @
                 '' in position 31: surrogates not allowed''))"
  by (intro conjI; code_simp)

end
